theory Spec2Isabelle
  imports Complex_Main "HOL-Library.Word" "HOL-Library.AList" "HOL-Library.Sublist"
    "HOL-Library.Log_Nat"
begin

section \<open>JavaScript strings\<close>

text \<open>
  A JavaScript string is a sequence of 16-bit code units. String literals of the source
  are written \<open>lit ''...''\<close>; every literal of the source is ASCII, so each character is
  one code unit. The string methods the source calls (\<open>trim\<close>, \<open>startsWith\<close>,
  \<open>includes\<close>, \<open>slice\<close>) are built-ins of the language and are defined here as the
  language defines them.
\<close>

type_synonym code_unit = "16 word"
type_synonym jstring = "code_unit list"

definition lit :: "string \<Rightarrow> jstring" where
  "lit s = map of_char s"

text \<open>
  \<open>String.prototype.trim\<close> removes the code units of WhiteSpace and LineTerminator
  from both ends: TAB, LF, VT, FF, CR, SP, NBSP, U+1680, U+2000 to U+200A, LS, PS,
  U+202F, U+205F, U+3000 and the byte order mark.
\<close>

definition isWhiteSpace :: "code_unit \<Rightarrow> bool" where
  "isWhiteSpace c \<longleftrightarrow>
     c = 0x09 \<or> c = 0x0A \<or> c = 0x0B \<or> c = 0x0C \<or> c = 0x0D \<or> c = 0x20 \<or> c = 0xA0 \<or>
     c = 0x1680 \<or> (0x2000 \<le> c \<and> c \<le> 0x200A) \<or> c = 0x2028 \<or> c = 0x2029 \<or>
     c = 0x202F \<or> c = 0x205F \<or> c = 0x3000 \<or> c = 0xFEFF"

definition trim :: "jstring \<Rightarrow> jstring" where
  "trim s = rev (dropWhile isWhiteSpace (rev (dropWhile isWhiteSpace s)))"

definition startsWith :: "jstring \<Rightarrow> jstring \<Rightarrow> bool" where
  "startsWith s p \<longleftrightarrow> take (length p) s = p"

fun includes_str :: "jstring \<Rightarrow> jstring \<Rightarrow> bool" where
  "includes_str [] p = (p = [])"
| "includes_str (c # cs) p = (startsWith (c # cs) p \<or> includes_str cs p)"

text \<open>
  \<open>s.slice(start, end)\<close>: a negative index counts from the end, both indices are
  clamped to the string, and an empty string results when the end is not after the start.
\<close>

definition slice_index :: "nat \<Rightarrow> int \<Rightarrow> nat" where
  "slice_index len i = (if i < 0 then nat (max (int len + i) 0) else min (nat i) len)"

definition slice :: "jstring \<Rightarrow> int \<Rightarrow> int \<Rightarrow> jstring" where
  "slice s start end =
     (let from = slice_index (length s) start; to = slice_index (length s) end
      in take (to - from) (drop from s))"

function digits_of :: "nat \<Rightarrow> jstring" where
  "digits_of n =
     (if n < 10 then [0x30 + of_nat n] else digits_of (n div 10) @ [0x30 + of_nat (n mod 10)])"
  by pat_completeness auto
termination
  by (relation "measure id") auto

section \<open>JavaScript numbers\<close>

text \<open>
  A JavaScript number is an IEEE 754 double. The finite doubles are rational numbers, and
  an arithmetic operation returns the exact result rounded to the nearest double, ties to
  the even significand. \<open>expo x\<close> is the exponent of \<open>x\<close>, the integer \<open>e\<close> with
  \<open>2 powi e \<le> \<bar>x\<bar>\<close> and \<open>\<bar>x\<bar> < 2 powi (e + 1)\<close>; the doubles around \<open>x\<close> are the
  multiples of \<open>2 powi ulp_exp x\<close>, 52 places below the exponent and never below the
  spacing of the subnormal numbers; \<open>fl\<close> rounds to the nearest of them. Results
  beyond the largest double, which would be infinite, do not occur in what follows.
\<close>

definition expo :: "rat \<Rightarrow> int" where
  "expo x =
     (let (n, d) = quotient_of \<bar>x\<bar>; k = bitlen n - bitlen d
      in if 2 powi k \<le> \<bar>x\<bar> then k else k - 1)"

definition round_even :: "rat \<Rightarrow> int" where
  "round_even q = (let r = round q in if of_int r - q = 1 / 2 \<and> odd r then r - 1 else r)"

definition ulp_exp :: "rat \<Rightarrow> int" where
  "ulp_exp x = max (expo x) (- 1022) - 52"

definition fl :: "rat \<Rightarrow> rat" where
  "fl x = of_int (round_even (x / 2 powi ulp_exp x)) * 2 powi ulp_exp x"

definition isDouble :: "rat \<Rightarrow> bool" where
  "isDouble x \<longleftrightarrow> fl x = x \<and> \<bar>x\<bar> < 2 ^ 1024"

section \<open>JSON values and \<open>JSON.parse\<close>\<close>

text \<open>
  \<open>JSON.parse\<close> is a built-in of the language; it is defined here after the JSON
  grammar, as a tokenizer followed by a parser, both total.

  The value \<open>JSON.parse\<close> returns. A number carries its literal: the floating-point
  value the literal denotes is not computed, so two equal \<open>JNum\<close> values are equal
  JavaScript numbers, and nothing here depends on the converse. An object is the list
  of its properties, each key once.
\<close>

datatype json =
    JNull
  | JBool bool
  | JNum jstring
  | JStr jstring
  | JArr "json list"
  | JObj "(jstring \<times> json) list"

datatype token =
    TLBrace | TRBrace | TLBracket | TRBracket | TColon | TComma
  | TString jstring | TNumber jstring | TTrue | TFalse | TNull

definition json_ws :: "code_unit \<Rightarrow> bool" where
  "json_ws c \<longleftrightarrow> c = 0x20 \<or> c = 0x09 \<or> c = 0x0A \<or> c = 0x0D"

definition is_digit :: "code_unit \<Rightarrow> bool" where
  "is_digit c \<longleftrightarrow> 0x30 \<le> c \<and> c \<le> 0x39"

definition hex_val :: "code_unit \<Rightarrow> code_unit option" where
  "hex_val c =
     (if 0x30 \<le> c \<and> c \<le> 0x39 then Some (c - 0x30)
      else if 0x61 \<le> c \<and> c \<le> 0x66 then Some (c - 0x61 + 10)
      else if 0x41 \<le> c \<and> c \<le> 0x46 then Some (c - 0x41 + 10)
      else None)"

fun hex4 :: "jstring \<Rightarrow> code_unit option" where
  "hex4 [a, b, c, d] =
     (case (hex_val a, hex_val b, hex_val c, hex_val d) of
        (Some h3, Some h2, Some h1, Some h0) \<Rightarrow> Some (((h3 * 16 + h2) * 16 + h1) * 16 + h0)
      | _ \<Rightarrow> None)"
| "hex4 _ = None"

text \<open>The escapes of a JSON string after the backslash, \<open>u\<close> apart.\<close>

definition simple_escape :: "code_unit \<Rightarrow> code_unit option" where
  "simple_escape e =
     (if e = 0x22 then Some 0x22
      else if e = 0x5C then Some 0x5C
      else if e = 0x2F then Some 0x2F
      else if e = of_char CHR ''b'' then Some 0x08
      else if e = of_char CHR ''f'' then Some 0x0C
      else if e = of_char CHR ''n'' then Some 0x0A
      else if e = of_char CHR ''r'' then Some 0x0D
      else if e = of_char CHR ''t'' then Some 0x09
      else None)"

text \<open>
  The characters of a string literal after its opening quote: the decoded string and the
  input after the closing quote, or \<open>None\<close> for an unterminated string, a control
  character or a bad escape.
\<close>

fun lex_string :: "jstring \<Rightarrow> jstring \<Rightarrow> (jstring \<times> jstring) option" where
  "lex_string [] acc = None"
| "lex_string (c # cs) acc =
     (if c = 0x22 then Some (rev acc, cs)
      else if c = 0x5C then
        (case cs of
           [] \<Rightarrow> None
         | e # cs' \<Rightarrow>
             if e = of_char CHR ''u'' then
               (case hex4 (take 4 cs') of
                  None \<Rightarrow> None
                | Some u \<Rightarrow> lex_string (drop 4 cs') (u # acc))
             else
               (case simple_escape e of
                  None \<Rightarrow> None
                | Some d \<Rightarrow> lex_string cs' (d # acc)))
      else if c < 0x20 then None
      else lex_string cs (c # acc))"

text \<open>
  The number grammar: an optional minus, an integer part without a leading zero, an
  optional fraction and an optional exponent.
\<close>

definition number_exp :: "jstring \<Rightarrow> bool" where
  "number_exp cs =
     (case cs of
        [] \<Rightarrow> True
      | c # r \<Rightarrow>
          (c = of_char CHR ''e'' \<or> c = of_char CHR ''E'') \<and>
          (let ds = (case r of
                       [] \<Rightarrow> []
                     | s # r' \<Rightarrow> if s = of_char CHR ''+'' \<or> s = of_char CHR ''-'' then r' else r)
           in ds \<noteq> [] \<and> list_all is_digit ds))"

definition number_frac :: "jstring \<Rightarrow> bool" where
  "number_frac cs =
     (case cs of
        [] \<Rightarrow> True
      | c # r \<Rightarrow>
          if c = of_char CHR ''.'' then takeWhile is_digit r \<noteq> [] \<and> number_exp (dropWhile is_digit r)
          else number_exp cs)"

definition number_int :: "jstring \<Rightarrow> bool" where
  "number_int cs =
     (case cs of
        [] \<Rightarrow> False
      | c # r \<Rightarrow>
          if c = of_char CHR ''0'' then number_frac r
          else if is_digit c then number_frac (dropWhile is_digit r)
          else False)"

definition valid_number :: "jstring \<Rightarrow> bool" where
  "valid_number cs =
     (case cs of
        [] \<Rightarrow> False
      | c # r \<Rightarrow> if c = of_char CHR ''-'' then number_int r else number_int cs)"

definition number_char :: "code_unit \<Rightarrow> bool" where
  "number_char c \<longleftrightarrow>
     is_digit c \<or> c = of_char CHR ''-'' \<or> c = of_char CHR ''+'' \<or> c = of_char CHR ''.'' \<or>
     c = of_char CHR ''e'' \<or> c = of_char CHR ''E''"

lemma lex_string_shorter: "lex_string cs acc = Some (s, rest) \<Longrightarrow> length rest < length cs"
proof (induction cs acc rule: lex_string.induct)
  case (1 acc)
  then show ?case by simp
next
  case (2 c cs acc)
  show ?case
  proof (cases "c = 0x22")
    case True
    with "2.prems" show ?thesis by simp
  next
    case quote: False
    show ?thesis
    proof (cases "c = 0x5C")
      case False
      with quote "2.prems" have "c < 0x20 \<or> lex_string cs (c # acc) = Some (s, rest)"
        by (simp split: if_splits)
      with quote False "2.prems" have "lex_string cs (c # acc) = Some (s, rest)"
        by (auto split: if_splits)
      moreover have "\<not> c < 0x20"
        using quote False "2.prems" by (auto split: if_splits)
      ultimately have "length rest < length cs"
        using "2.IH"(3) quote False by blast
      then show ?thesis by simp
    next
      case True
      then obtain e cs' where cs: "cs = e # cs'"
        using quote "2.prems" by (cases cs) auto
      show ?thesis
      proof (cases "e = of_char CHR ''u''")
        case u: True
        then obtain h where h: "hex4 (take 4 cs') = Some h"
          and r: "lex_string (drop 4 cs') (h # acc) = Some (s, rest)"
          using quote True cs "2.prems" by (auto split: option.splits)
        have "length rest < length (drop 4 cs')"
          using "2.IH"(1) quote True cs u h r by blast
        then show ?thesis using cs by simp
      next
        case nu: False
        then obtain d where d: "simple_escape e = Some d"
          and r: "lex_string cs' (d # acc) = Some (s, rest)"
          using quote True cs "2.prems" by (auto split: option.splits)
        have "length rest < length cs'"
          using "2.IH"(2) quote True cs nu d r by blast
        then show ?thesis using cs by simp
      qed
    qed
  qed
qed

text \<open>
  The tokens of a JSON text. A number is the longest run of number characters, checked
  against the number grammar: whatever follows a number in a JSON text is white space,
  a comma or a closing bracket, so the longest run is the number.
\<close>

function tokenize :: "jstring \<Rightarrow> token list option" where
  "tokenize [] = Some []"
| "tokenize (c # cs) =
     (if json_ws c then tokenize cs
      else if c = of_char CHR ''{'' then map_option (Cons TLBrace) (tokenize cs)
      else if c = of_char CHR ''}'' then map_option (Cons TRBrace) (tokenize cs)
      else if c = of_char CHR ''['' then map_option (Cons TLBracket) (tokenize cs)
      else if c = of_char CHR '']'' then map_option (Cons TRBracket) (tokenize cs)
      else if c = of_char CHR '':'' then map_option (Cons TColon) (tokenize cs)
      else if c = of_char CHR '','' then map_option (Cons TComma) (tokenize cs)
      else if c = 0x22 then
        (case lex_string cs [] of
           None \<Rightarrow> None
         | Some (s, rest) \<Rightarrow> map_option (Cons (TString s)) (tokenize rest))
      else if c = of_char CHR ''-'' \<or> is_digit c then
        (if valid_number (c # takeWhile number_char cs)
         then map_option (Cons (TNumber (c # takeWhile number_char cs)))
                (tokenize (dropWhile number_char cs))
         else None)
      else if c = of_char CHR ''t'' \<and> take 3 cs = lit ''rue''
        then map_option (Cons TTrue) (tokenize (drop 3 cs))
      else if c = of_char CHR ''f'' \<and> take 4 cs = lit ''alse''
        then map_option (Cons TFalse) (tokenize (drop 4 cs))
      else if c = of_char CHR ''n'' \<and> take 3 cs = lit ''ull''
        then map_option (Cons TNull) (tokenize (drop 3 cs))
      else None)"
  by pat_completeness auto
termination
proof (relation "measure length")
  fix c :: code_unit and cs :: jstring and x2 :: "jstring \<times> jstring" and s rest :: jstring
  assume "lex_string cs [] = Some x2" and "(s, rest) = x2"
  then have "length rest < length cs"
    using lex_string_shorter [of cs "[]" s rest] by simp
  then show "(rest, c # cs) \<in> measure length" by simp
qed (auto simp: less_Suc_eq_le length_dropWhile_le)

text \<open>
  The parser is a pushdown automaton over the tokens. A frame of the stack is an array
  or an object under construction (its elements so far, latest first); \<open>FKey\<close> is an
  object whose next value belongs to the key it carries.
\<close>

datatype frame =
    FArr "json list"
  | FObj "(jstring \<times> json) list"
  | FKey "(jstring \<times> json) list" jstring

datatype expect = EValue | EValueOrEnd | EKeyOrEnd | EKey | EColon | ECommaOrEnd

datatype pstate = Parsing expect "frame list" | Done json

text \<open>A later property of the same key replaces the earlier one.\<close>

definition make_object :: "(jstring \<times> json) list \<Rightarrow> json" where
  "make_object members = JObj (foldl (\<lambda>ps (k, v). AList.update k v ps) [] members)"

fun deliver :: "json \<Rightarrow> frame list \<Rightarrow> pstate option" where
  "deliver v [] = Some (Done v)"
| "deliver v (FArr xs # st) = Some (Parsing ECommaOrEnd (FArr (v # xs) # st))"
| "deliver v (FKey ms k # st) = Some (Parsing ECommaOrEnd (FObj ((k, v) # ms) # st))"
| "deliver v (FObj ms # st) = None"

fun start_value :: "token \<Rightarrow> frame list \<Rightarrow> pstate option" where
  "start_value TLBrace st = Some (Parsing EKeyOrEnd (FObj [] # st))"
| "start_value TLBracket st = Some (Parsing EValueOrEnd (FArr [] # st))"
| "start_value (TString s) st = deliver (JStr s) st"
| "start_value (TNumber n) st = deliver (JNum n) st"
| "start_value TTrue st = deliver (JBool True) st"
| "start_value TFalse st = deliver (JBool False) st"
| "start_value TNull st = deliver JNull st"
| "start_value _ st = None"

fun close_array :: "frame list \<Rightarrow> pstate option" where
  "close_array (FArr xs # st) = deliver (JArr (rev xs)) st"
| "close_array _ = None"

fun close_object :: "frame list \<Rightarrow> pstate option" where
  "close_object (FObj ms # st) = deliver (make_object (rev ms)) st"
| "close_object _ = None"

fun read_key :: "token \<Rightarrow> frame list \<Rightarrow> pstate option" where
  "read_key (TString k) (FObj ms # st) = Some (Parsing EColon (FKey ms k # st))"
| "read_key _ _ = None"

fun after_comma :: "frame list \<Rightarrow> pstate option" where
  "after_comma (FArr xs # st) = Some (Parsing EValue (FArr xs # st))"
| "after_comma (FObj ms # st) = Some (Parsing EKey (FObj ms # st))"
| "after_comma _ = None"

fun parse_step :: "pstate \<Rightarrow> token \<Rightarrow> pstate option" where
  "parse_step (Done v) t = None"
| "parse_step (Parsing EValue st) t = start_value t st"
| "parse_step (Parsing EValueOrEnd st) t =
     (if t = TRBracket then close_array st else start_value t st)"
| "parse_step (Parsing EKeyOrEnd st) t =
     (if t = TRBrace then close_object st else read_key t st)"
| "parse_step (Parsing EKey st) t = read_key t st"
| "parse_step (Parsing EColon st) t = (if t = TColon then Some (Parsing EValue st) else None)"
| "parse_step (Parsing ECommaOrEnd st) t =
     (if t = TComma then after_comma st
      else if t = TRBracket then close_array st
      else if t = TRBrace then close_object st
      else None)"

fun parse_tokens :: "pstate \<Rightarrow> token list \<Rightarrow> pstate option" where
  "parse_tokens ps [] = Some ps"
| "parse_tokens ps (t # ts) =
     (case parse_step ps t of None \<Rightarrow> None | Some ps' \<Rightarrow> parse_tokens ps' ts)"

text \<open>\<open>JSON.parse\<close>: the value of a JSON text, \<open>None\<close> where it throws a SyntaxError.\<close>

definition JSON_parse :: "jstring \<Rightarrow> json option" where
  "JSON_parse s =
     (case tokenize s of
        None \<Rightarrow> None
      | Some ts \<Rightarrow>
          (case parse_tokens (Parsing EValue []) ts of
             Some (Done v) \<Rightarrow> Some v
           | _ \<Rightarrow> None))"

section \<open>Objects\<close>

text \<open>
  An object built at run time is the list of its properties; the value \<open>None\<close> of a
  property is \<open>undefined\<close>. The source declares \<open>StudyMaterials\<close> with seven fields,
  but the record it assembles takes its properties from the parsed response, so the model
  keeps the object as it is. The order in which properties are enumerated is not
  modelled: the code only looks properties up.
\<close>

type_synonym jsobject = "(jstring \<times> json option) list"

text \<open>
  The own enumerable properties an object spread \<open>{...v}\<close> copies: those of an object,
  the indexed elements of an array or of a string, none of any other value.
\<close>

fun ownProperties :: "json \<Rightarrow> (jstring \<times> json) list" where
  "ownProperties (JObj ps) = ps"
| "ownProperties (JArr xs) = zip (map digits_of [0..<length xs]) xs"
| "ownProperties (JStr s) = zip (map digits_of [0..<length s]) (map (\<lambda>c. JStr [c]) s)"
| "ownProperties _ = []"

definition populated :: "jsobject \<Rightarrow> jstring \<Rightarrow> bool" where
  "populated obj k \<longleftrightarrow> (\<exists>v. map_of obj k = Some (Some v) \<and> v \<noteq> JNull)"

section \<open>The remote generation backend\<close>

datatype part = InlineData jstring jstring | TextPart jstring

datatype schema = TypeString | TypeArray schema | TypeObject "(jstring \<times> schema) list" "jstring list"

record gen_config =
  responseMimeType :: jstring
  responseSchema :: schema

record request =
  model :: jstring
  parts :: "part list"
  config :: "gen_config option"

text \<open>
  What a \<open>catch\<close> receives: an \<open>Error\<close> with its message, or a value that is not an
  instance of \<open>Error\<close>.
\<close>

datatype thrown = Error jstring | NotAnError

text \<open>
  The outcome of \<open>ai.models.generateContent\<close>: the promise resolves with a response
  whose \<open>text\<close> is a string or \<open>undefined\<close>, or it rejects.
\<close>

datatype response = Resolved "jstring option" | Rejected thrown

type_synonym backend = "request \<Rightarrow> response"

section \<open>The application state\<close>

record audio =
  data :: jstring
  mimeType :: jstring

record error_info =
  message :: jstring
  retryable :: bool

datatype tab = Notes | Detailed | Transcript

record HistoryItem =
  item_id :: int
  filename :: jstring
  materials :: jsobject

text \<open>
  The state of the \<open>App\<close> component that the history handlers and \<open>handleGenerate\<close>
  read and write. \<open>mediaFile\<close> is the name of the selected file, the only part of it
  that is read; \<open>storage\<close> is the item \<open>studyHistory\<close> of \<open>localStorage\<close>;
  \<open>progressTimer\<close> tells whether the interval of the progress simulation is running.
\<close>

record app_state =
  mediaFile :: "jstring option"
  audioData :: "audio option"
  isProcessing :: bool
  loadingMessage :: jstring
  studyMaterials :: "jsobject option"
  error :: "error_info option"
  activeTab :: tab
  progress :: rat
  history :: "HistoryItem list"
  storage :: "jstring option"
  progressTimer :: bool

text \<open>
  What the handlers take from their environment: the credential \<open>process.env.API_KEY\<close>,
  the clock \<open>Date.now()\<close>, and \<open>JSON.stringify\<close> on a history list, whose output on
  numbers depends on floating-point formatting and is left open. Writing to
  \<open>localStorage\<close> is taken to succeed.
\<close>

record env =
  API_KEY :: "jstring option"
  now :: int
  stringify :: "HistoryItem list \<Rightarrow> jstring"

definition initialState :: "jstring option \<Rightarrow> app_state" where
  "initialState stored =
     \<lparr>mediaFile = None, audioData = None, isProcessing = False, loadingMessage = [],
      studyMaterials = None, error = None, activeTab = Notes, progress = 0, history = [],
      storage = stored, progressTimer = False\<rparr>"

section \<open>The history store\<close>

definition handleSaveToHistory :: "env \<Rightarrow> jstring \<Rightarrow> jsobject \<Rightarrow> app_state \<Rightarrow> app_state" where
  "handleSaveToHistory e fname mats st =
     (let newItem = \<lparr>item_id = now e, filename = fname, materials = mats\<rparr>;
          updatedHistory = newItem # history st
      in st\<lparr>history := updatedHistory, storage := Some (stringify e updatedHistory)\<rparr>)"

definition handleDeleteFromHistory :: "env \<Rightarrow> int \<Rightarrow> app_state \<Rightarrow> app_state" where
  "handleDeleteFromHistory e i st =
     (let updatedHistory = filter (\<lambda>item. item_id item \<noteq> i) (history st)
      in st\<lparr>history := updatedHistory, storage := Some (stringify e updatedHistory)\<rparr>)"

text \<open>
  The effect that loads the history when the component mounts. A missing or empty item
  leaves the state as it is; a blob that \<open>JSON.parse\<close> rejects is removed from the
  storage. \<open>Inl v\<close> is the case where \<open>JSON.parse\<close> returns \<open>v\<close>: the code makes
  \<open>v\<close> the history as it is, without looking into it, so the value is returned as
  parsed and is not read as a list of items here.
\<close>

definition loadHistory :: "app_state \<Rightarrow> json + app_state" where
  "loadHistory st =
     (case storage st of
        None \<Rightarrow> Inr st
      | Some savedHistory \<Rightarrow>
          if savedHistory = [] then Inr st
          else
            (case JSON_parse savedHistory of
               None \<Rightarrow> Inr (st\<lparr>storage := None\<rparr>)
             | Some v \<Rightarrow> Inl v))"

section \<open>The generation pipeline\<close>

definition quoted :: "string \<Rightarrow> jstring" where
  "quoted s = 0x22 # lit s @ [0x22]"

definition modelName :: jstring where
  "modelName = lit ''gemini-2.5-flash''"

definition transcriptionPrompt :: jstring where
  "transcriptionPrompt =
     lit ''Transcribe the provided audio lecture precisely into English. Return only the raw text of the English transcript, and nothing else.''"

definition transcriptionRequest :: "audio \<Rightarrow> request" where
  "transcriptionRequest a =
     \<lparr>model = modelName,
      parts = [InlineData (data a) (mimeType a), TextPart transcriptionPrompt],
      config = None\<rparr>"

definition studyGuideSchema :: schema where
  "studyGuideSchema =
     TypeObject
       [(lit ''summary'', TypeString),
        (lit ''keySections'', TypeArray TypeString),
        (lit ''formulas'', TypeArray TypeString),
        (lit ''glossary'',
           TypeArray (TypeObject [(lit ''term'', TypeString), (lit ''definition'', TypeString)]
                        [lit ''term'', lit ''definition''])),
        (lit ''examQuestions'', TypeArray TypeString)]
       [lit ''summary'', lit ''keySections'', lit ''formulas'', lit ''glossary'', lit ''examQuestions'']"

definition studyGuidePrompt :: "jstring \<Rightarrow> jstring" where
  "studyGuidePrompt transcript =
     lit ''Based on the following transcription of a lecture, generate a comprehensive study guide. The output must be a single, valid JSON object.\<newline>\<newline>The JSON object must contain these fields:\<newline>1. ''
     @ quoted ''summary'' @ lit '': A concise summary of the entire lecture.\<newline>2. ''
     @ quoted ''keySections'' @ lit '': A bulleted list of the main topics discussed.\<newline>3. ''
     @ quoted ''formulas'' @ lit '': A list of all formulas mentioned. If none, return an empty array.\<newline>4. ''
     @ quoted ''glossary'' @ lit '': A list of key terms and their definitions. Each item should be an object with ''
     @ quoted ''term'' @ lit '' and '' @ quoted ''definition'' @ lit '' properties. If none, return an empty array.\<newline>5. ''
     @ quoted ''examQuestions'' @ lit '': A list of 3-5 potential exam questions based on the content.\<newline>\<newline>Here is the transcript:\<newline>---\<newline>''
     @ transcript @ lit ''\<newline>---''"

definition studyGuideRequest :: "jstring \<Rightarrow> request" where
  "studyGuideRequest transcript =
     \<lparr>model = modelName,
      parts = [TextPart (studyGuidePrompt transcript)],
      config = Some \<lparr>responseMimeType = lit ''application/json'', responseSchema = studyGuideSchema\<rparr>\<rparr>"

definition detailedNotesPrompt :: "jstring \<Rightarrow> jstring" where
  "detailedNotesPrompt transcript =
     lit ''Transform the following lecture transcript into a set of high-quality, detailed study notes. The notes should be well-structured, easy to read, and capture the essence of the lecture. Do not just reformat the transcript. Instead, synthesize the information, organize it logically under clear headings, and use bullet points to break down complex topics. Focus on key concepts, definitions, examples, and conclusions. The final output should be formatted in clean markdown.\<newline>\<newline>      Transcript:\<newline>      ---\<newline>      ''
     @ transcript @ lit ''\<newline>      ---''"

definition detailedNotesRequest :: "jstring \<Rightarrow> request" where
  "detailedNotesRequest transcript =
     \<lparr>model = modelName, parts = [TextPart (detailedNotesPrompt transcript)], config = None\<rparr>"

definition emptyTranscriptMessage :: jstring where
  "emptyTranscriptMessage =
     lit ''Transcription failed: The model returned an empty transcript. The audio might be silent or in an unsupported format.''"

definition malformedResponseMessage :: jstring where
  "malformedResponseMessage =
     lit ''Failed to process the study guide from the AI. The response was not in the expected JSON format. Please try again.''"

definition unknownErrorMessage :: jstring where
  "unknownErrorMessage =
     lit ''An unknown error occurred. Please check the developer console for more details.''"

definition networkErrorMessage :: jstring where
  "networkErrorMessage =
     lit ''A network error occurred while communicating with the AI. Please check your internet connection.''"

text \<open>
  What a run does between its start and its end, in order: the loading messages and
  progress values it shows, the starts and stops of the progress timer, and the remote
  calls it makes. The two pauses of 500 ms are left out.
\<close>

datatype effect =
    SetLoadingMessage jstring
  | SetProgress rat
  | StartProgressSimulation
  | ClearInterval
  | GenerateContent request

text \<open>
  The update of \<open>startProgressSimulation\<close>, run every 400 ms while the timer is on:
  \<open>prev + (99 - prev) * 0.05\<close> in double arithmetic below 99, and 99 from there on,
  where the timer stops itself.
\<close>

definition progressTick :: "rat \<Rightarrow> rat" where
  "progressTick prev = (if 99 \<le> prev then 99 else fl (prev + fl (fl (99 - prev) * fl (1 / 20))))"

definition progressIntervalTick :: "app_state \<Rightarrow> app_state" where
  "progressIntervalTick st =
     (if progressTimer st
      then st\<lparr>progress := progressTick (progress st), progressTimer := (progress st < 99)\<rparr>
      else st)"

text \<open>
  The inner \<open>try\<close> of stage 2: the text of the response, trimmed, freed of a code fence
  and parsed. \<open>None\<close> is the inner \<open>catch\<close>: the text is \<open>undefined\<close> or
  \<open>JSON.parse\<close> throws.
\<close>

definition parseStudyGuide :: "jstring option \<Rightarrow> json option" where
  "parseStudyGuide responseText =
     (case responseText of
        None \<Rightarrow> None
      | Some t \<Rightarrow>
          (let jsonText = trim t
           in JSON_parse
                (if startsWith jsonText (lit ''```json'') then trim (slice jsonText 7 (- 3))
                 else if startsWith jsonText (lit ''```'') then trim (slice jsonText 3 (- 3))
                 else jsonText)))"

text \<open>
  The record of a finished run: the spread of the parsed study guide, then
  \<open>transcript\<close> and \<open>detailedNotes\<close>.
\<close>

definition finalMaterials :: "json \<Rightarrow> jstring \<Rightarrow> jstring option \<Rightarrow> jsobject" where
  "finalMaterials parsedStudyGuide transcript notes =
     AList.update (lit ''detailedNotes'') (map_option JStr notes)
       (AList.update (lit ''transcript'') (Some (JStr transcript))
          (map (\<lambda>(k, v). (k, Some v)) (ownProperties parsedStudyGuide)))"

definition detailedNotesStage :: "backend \<Rightarrow> jstring \<Rightarrow> json \<Rightarrow> (thrown + jsobject) \<times> effect list" where
  "detailedNotesStage gen transcript parsedStudyGuide =
     (let trace = [SetLoadingMessage (lit ''Step 3/3: Composing detailed lecture notes...''),
                 SetProgress 0, StartProgressSimulation,
                 GenerateContent (detailedNotesRequest transcript)]
      in case gen (detailedNotesRequest transcript) of
           Rejected err \<Rightarrow> (Inl err, trace)
         | Resolved notes \<Rightarrow>
             (Inr (finalMaterials parsedStudyGuide transcript notes),
              trace @ [ClearInterval, SetProgress 100]))"

definition studyGuideStage :: "backend \<Rightarrow> jstring \<Rightarrow> (thrown + jsobject) \<times> effect list" where
  "studyGuideStage gen transcript =
     (let trace = [SetLoadingMessage (lit ''Step 2/3: Analyzing transcript and generating study guide...''),
                 SetProgress 0, StartProgressSimulation,
                 GenerateContent (studyGuideRequest transcript)]
      in case gen (studyGuideRequest transcript) of
           Rejected err \<Rightarrow> (Inl err, trace)
         | Resolved responseText \<Rightarrow>
             (case parseStudyGuide responseText of
                None \<Rightarrow> (Inl (Error malformedResponseMessage), trace @ [ClearInterval, SetProgress 100])
              | Some parsedStudyGuide \<Rightarrow>
                  (let (result, trace3) = detailedNotesStage gen transcript parsedStudyGuide
                   in (result, trace @ [ClearInterval, SetProgress 100] @ trace3))))"

text \<open>The body of the outer \<open>try\<close>: \<open>Inl\<close> is what it throws, \<open>Inr\<close> the assembled record.\<close>

definition runStages :: "backend \<Rightarrow> audio \<Rightarrow> (thrown + jsobject) \<times> effect list" where
  "runStages gen a =
     (let trace = [SetLoadingMessage (lit ''Step 1/3: Transcribing audio...''),
                 StartProgressSimulation,
                 GenerateContent (transcriptionRequest a)]
      in case gen (transcriptionRequest a) of
           Rejected err \<Rightarrow> (Inl err, trace)
         | Resolved None \<Rightarrow> (Inl (Error emptyTranscriptMessage), trace @ [ClearInterval, SetProgress 100])
         | Resolved (Some transcript) \<Rightarrow>
             if trim transcript = []
             then (Inl (Error emptyTranscriptMessage), trace @ [ClearInterval, SetProgress 100])
             else
               (let (result, trace2) = studyGuideStage gen transcript
                in (result, trace @ [ClearInterval, SetProgress 100] @ trace2)))"

text \<open>The outer \<open>catch\<close>: the error shown for what was thrown.\<close>

definition catchError :: "thrown \<Rightarrow> error_info" where
  "catchError err =
     (case err of
        NotAnError \<Rightarrow> \<lparr>message = unknownErrorMessage, retryable = True\<rparr>
      | Error m \<Rightarrow>
          if includes_str m (lit ''xhr error'') \<or> includes_str m (lit ''500'')
          then \<lparr>message = networkErrorMessage, retryable = True\<rparr>
          else if includes_str m (lit ''Transcription failed'')
          then \<lparr>message = m, retryable = False\<rparr>
          else \<lparr>message = m, retryable = True\<rparr>)"

text \<open>\<open>!API_KEY\<close>: the credential is \<open>undefined\<close> or the empty string.\<close>

definition missing :: "jstring option \<Rightarrow> bool" where
  "missing k \<longleftrightarrow> (case k of None \<Rightarrow> True | Some s \<Rightarrow> s = [])"

text \<open>
  \<open>handleGenerate\<close>, with the state after it and the effects of the run in order. The
  two early returns leave the rest of the state as it is; otherwise the state is reset,
  the stages run, the outcome is stored and the \<open>finally\<close> block clears the
  indicators. A run is taken whole: no other handler changes the state while it awaits
  the backend.
\<close>

definition handleGenerate :: "env \<Rightarrow> backend \<Rightarrow> app_state \<Rightarrow> app_state \<times> effect list" where
  "handleGenerate e gen st =
     (if missing (API_KEY e) then
        (st\<lparr>error := Some \<lparr>message = lit ''API_KEY environment variable is not set.'',
                            retryable = False\<rparr>\<rparr>, [])
      else
        (case (audioData st, mediaFile st) of
           (Some a, Some fname) \<Rightarrow>
             (let st1 = st\<lparr>isProcessing := True, error := None, studyMaterials := None,
                            progress := 0, progressTimer := False\<rparr>;
                  (result, trace) = runStages gen a;
                  st2 = (case result of
                           Inr mats \<Rightarrow>
                             (handleSaveToHistory e fname mats (st1\<lparr>studyMaterials := Some mats\<rparr>))
                               \<lparr>activeTab := Notes\<rparr>
                         | Inl err \<Rightarrow> st1\<lparr>error := Some (catchError err)\<rparr>)
              in (st2\<lparr>progressTimer := False, isProcessing := False, loadingMessage := [],
                      progress := 0\<rparr>, trace))
         | _ \<Rightarrow>
             (st\<lparr>error := Some \<lparr>message = lit ''Audio data not ready. Please wait a moment after selecting a file or try re-selecting.'',
                                 retryable = True\<rparr>\<rparr>, [])))"

text \<open>The remote calls among the effects of a run, in order.\<close>

fun remoteCalls :: "effect list \<Rightarrow> request list" where
  "remoteCalls [] = []"
| "remoteCalls (GenerateContent r # es) = r # remoteCalls es"
| "remoteCalls (_ # es) = remoteCalls es"

text \<open>
  Whether a run sets the progress to 100 only right after it has stopped the timer on a
  remote call that resolved: every \<open>SetProgress 100\<close> among the effects follows a
  \<open>GenerateContent\<close> that the backend resolves and the \<open>ClearInterval\<close> after it.
\<close>

fun snapsOnResolution :: "backend \<Rightarrow> effect list \<Rightarrow> bool" where
  "snapsOnResolution gen [] = True"
| "snapsOnResolution gen (GenerateContent r # ClearInterval # SetProgress v # es) =
     ((case gen r of Resolved t \<Rightarrow> True | Rejected err \<Rightarrow> False) \<and> snapsOnResolution gen es)"
| "snapsOnResolution gen (SetProgress v # es) = (v \<noteq> 100 \<and> snapsOnResolution gen es)"
| "snapsOnResolution gen (ef # es) = snapsOnResolution gen es"

section \<open>Sample inputs\<close>

text \<open>
  A backend that answers by stage: the transcription request is the one with two parts,
  the study-guide request the one with a configuration, the detailed-notes request the
  remaining one.
\<close>

definition scriptedBackend :: "response \<Rightarrow> response \<Rightarrow> response \<Rightarrow> backend" where
  "scriptedBackend r1 r2 r3 req =
     (if config req \<noteq> None then r2 else if length (parts req) = 2 then r1 else r3)"

definition sampleAudio :: audio where
  "sampleAudio = \<lparr>data = lit ''AAAA'', mimeType = lit ''audio/mpeg''\<rparr>"

definition sampleEnv :: env where
  "sampleEnv = \<lparr>API_KEY = Some (lit ''key''), now = 1700000000000,
                stringify = (\<lambda>h. digits_of (length h))\<rparr>"

definition sampleState :: app_state where
  "sampleState =
     (initialState None)\<lparr>mediaFile := Some (lit ''lecture.mp3''), audioData := Some sampleAudio\<rparr>"

definition sampleItem :: "int \<Rightarrow> HistoryItem" where
  "sampleItem i = \<lparr>item_id = i, filename = lit ''lecture.mp3'', materials = []\<rparr>"

definition sampleMaterials :: jsobject where
  "sampleMaterials =
     [(lit ''summary'', Some (JStr (lit ''s''))),
      (lit ''keySections'', Some (JArr [])),
      (lit ''formulas'', Some (JArr [])),
      (lit ''glossary'', Some (JArr [])),
      (lit ''examQuestions'', Some (JArr [])),
      (lit ''transcript'', Some (JStr (lit ''t''))),
      (lit ''detailedNotes'', Some (JStr (lit ''n'')))]"

definition sampleGuideText :: jstring where
  "sampleGuideText =
     lit ''{'' @ quoted ''summary'' @ lit '':'' @ quoted ''Force and mass'' @ lit '',''
     @ quoted ''keySections'' @ lit '':['' @ quoted ''Dynamics'' @ lit ''],''
     @ quoted ''formulas'' @ lit '':['' @ quoted ''F = m*a'' @ lit ''],''
     @ quoted ''glossary'' @ lit '':[],''
     @ quoted ''examQuestions'' @ lit '':['' @ quoted ''State the law.'' @ lit '']}''"

section \<open>Strings and the parser: basic facts\<close>

lemma empty_message_xhr: "\<not> includes_str emptyTranscriptMessage (lit ''xhr error'')"
  unfolding emptyTranscriptMessage_def by code_simp

lemma empty_message_500: "\<not> includes_str emptyTranscriptMessage (lit ''500'')"
  unfolding emptyTranscriptMessage_def by code_simp

lemma empty_message_marker: "includes_str emptyTranscriptMessage (lit ''Transcription failed'')"
  unfolding emptyTranscriptMessage_def by code_simp

lemma catchError_empty_transcript:
  "catchError (Error emptyTranscriptMessage) = \<lparr>message = emptyTranscriptMessage, retryable = False\<rparr>"
  by (simp add: catchError_def empty_message_xhr empty_message_500 empty_message_marker)

lemma malformed_message_xhr: "\<not> includes_str malformedResponseMessage (lit ''xhr error'')"
  unfolding malformedResponseMessage_def by code_simp

lemma malformed_message_500: "\<not> includes_str malformedResponseMessage (lit ''500'')"
  unfolding malformedResponseMessage_def by code_simp

lemma malformed_message_marker: "\<not> includes_str malformedResponseMessage (lit ''Transcription failed'')"
  unfolding malformedResponseMessage_def by code_simp

lemma catchError_malformed:
  "catchError (Error malformedResponseMessage) = \<lparr>message = malformedResponseMessage, retryable = True\<rparr>"
  by (simp add: catchError_def malformed_message_xhr malformed_message_500 malformed_message_marker)

lemma dropWhile_all_iff: "(\<forall>x \<in> set (dropWhile P xs). P x) \<longleftrightarrow> (\<forall>x \<in> set xs. P x)"
proof
  assume all: "\<forall>x \<in> set (dropWhile P xs). P x"
  have "dropWhile P xs = []"
  proof (rule ccontr)
    assume ne: "dropWhile P xs \<noteq> []"
    then have "\<not> P (hd (dropWhile P xs))" by (rule hd_dropWhile)
    moreover have "hd (dropWhile P xs) \<in> set (dropWhile P xs)" using ne by simp
    ultimately show False using all by blast
  qed
  then show "\<forall>x \<in> set xs. P x" by (simp add: dropWhile_eq_Nil_conv)
next
  assume "\<forall>x \<in> set xs. P x"
  then show "\<forall>x \<in> set (dropWhile P xs). P x" by (meson set_dropWhileD)
qed

lemma trim_empty_iff: "trim s = [] \<longleftrightarrow> (\<forall>c \<in> set s. isWhiteSpace c)"
  by (simp add: trim_def dropWhile_eq_Nil_conv dropWhile_all_iff)

lemma last_dropWhile: "dropWhile P xs \<noteq> [] \<Longrightarrow> last (dropWhile P xs) = last xs"
  by (metis last_appendR takeWhile_dropWhile_id)

lemma hd_trim: "trim s \<noteq> [] \<Longrightarrow> hd (trim s) = hd (dropWhile isWhiteSpace s)"
  by (simp add: trim_def hd_rev last_dropWhile last_rev)

lemma hd_trim_not_space: "trim s \<noteq> [] \<Longrightarrow> \<not> isWhiteSpace (hd (trim s))"
proof -
  assume ne: "trim s \<noteq> []"
  then have "dropWhile isWhiteSpace s \<noteq> []"
    unfolding trim_def by (cases "dropWhile isWhiteSpace s") simp_all
  then have "\<not> isWhiteSpace (hd (dropWhile isWhiteSpace s))" by (rule hd_dropWhile)
  then show ?thesis using ne by (simp add: hd_trim)
qed





lemma handleGenerate_failed:
  assumes "\<not> missing (API_KEY e)" and "audioData st = Some a" and "mediaFile st = Some f"
    and "runStages gen a = (Inl err, tr)"
  shows "handleGenerate e gen st =
           (st\<lparr>isProcessing := False, loadingMessage := [], studyMaterials := None,
               error := Some (catchError err), progress := 0, progressTimer := False\<rparr>, tr)"
  using assms by (simp add: handleGenerate_def)

lemma handleGenerate_completed:
  assumes "\<not> missing (API_KEY e)" and "audioData st = Some a" and "mediaFile st = Some f"
    and "runStages gen a = (Inr mats, tr)"
  shows "handleGenerate e gen st =
           (st\<lparr>isProcessing := False, loadingMessage := [], studyMaterials := Some mats,
               error := None, activeTab := Notes, progress := 0, progressTimer := False,
               history := \<lparr>item_id = now e, filename = f, materials = mats\<rparr> # history st,
               storage := Some (stringify e (\<lparr>item_id = now e, filename = f, materials = mats\<rparr> # history st))\<rparr>,
            tr)"
  using assms by (simp add: handleGenerate_def handleSaveToHistory_def Let_def)

section \<open>Runs of the pipeline\<close>

lemma scripted_stage1: "scriptedBackend r1 r2 r3 (transcriptionRequest a) = r1"
  by (simp add: scriptedBackend_def transcriptionRequest_def)

lemma scripted_stage2: "scriptedBackend r1 r2 r3 (studyGuideRequest t) = r2"
  by (simp add: scriptedBackend_def studyGuideRequest_def)

lemma scripted_stage3: "scriptedBackend r1 r2 r3 (detailedNotesRequest t) = r3"
  by (simp add: scriptedBackend_def detailedNotesRequest_def)

lemma sample_ready:
  "\<not> missing (API_KEY sampleEnv)" "audioData sampleState = Some sampleAudio"
  "mediaFile sampleState = Some (lit ''lecture.mp3'')"
  by (simp_all add: sampleEnv_def sampleState_def missing_def lit_def initialState_def)

lemma runStages_empty_transcript:
  assumes "gen (transcriptionRequest a) = Resolved t"
    and "\<forall>s. t = Some s \<longrightarrow> (\<forall>c \<in> set s. isWhiteSpace c)"
  shows "runStages gen a =
           (Inl (Error emptyTranscriptMessage),
            [SetLoadingMessage (lit ''Step 1/3: Transcribing audio...''), StartProgressSimulation,
             GenerateContent (transcriptionRequest a), ClearInterval, SetProgress 100])"
  using assms by (cases t) (simp_all add: runStages_def trim_empty_iff)

text \<open>
  C1. When the transcription call resolves with a text that is missing, empty or made of
  white space only, the run ends with the empty-transcript error, which is not retryable;
  the transcription request is the only remote call of the run, so neither the
  study-guide stage nor the detailed-notes stage is invoked; no record is displayed and
  the history is as before.
\<close>

theorem empty_transcript_fails:
  assumes "\<not> missing (API_KEY e)" and "audioData st = Some a" and "mediaFile st = Some f"
    and "gen (transcriptionRequest a) = Resolved t"
    and "\<forall>s. t = Some s \<longrightarrow> (\<forall>c \<in> set s. isWhiteSpace c)"
  shows "error (fst (handleGenerate e gen st)) =
           Some \<lparr>message = emptyTranscriptMessage, retryable = False\<rparr> \<and>
         remoteCalls (snd (handleGenerate e gen st)) = [transcriptionRequest a] \<and>
         studyMaterials (fst (handleGenerate e gen st)) = None \<and>
         history (fst (handleGenerate e gen st)) = history st \<and>
         \<not> isProcessing (fst (handleGenerate e gen st))"
proof -
  have "handleGenerate e gen st =
          (st\<lparr>isProcessing := False, loadingMessage := [], studyMaterials := None,
              error := Some (catchError (Error emptyTranscriptMessage)), progress := 0,
              progressTimer := False\<rparr>,
           [SetLoadingMessage (lit ''Step 1/3: Transcribing audio...''), StartProgressSimulation,
            GenerateContent (transcriptionRequest a), ClearInterval, SetProgress 100])"
    using assms runStages_empty_transcript [of gen a t] handleGenerate_failed [of e st a f gen]
    by simp
  then show ?thesis by (simp add: catchError_empty_transcript)
qed

theorem empty_transcript_fails_witness:
  "error (fst (handleGenerate sampleEnv
      (scriptedBackend (Resolved (Some (lit ''   ''))) (Rejected NotAnError) (Rejected NotAnError))
      sampleState)) = Some \<lparr>message = emptyTranscriptMessage, retryable = False\<rparr> \<and>
   remoteCalls (snd (handleGenerate sampleEnv
      (scriptedBackend (Resolved (Some (lit ''   ''))) (Rejected NotAnError) (Rejected NotAnError))
      sampleState)) = [transcriptionRequest sampleAudio]"
proof -
  have ws: "\<forall>s. Some (lit ''   '') = Some s \<longrightarrow> (\<forall>c \<in> set s. isWhiteSpace c)"
    by (simp add: lit_def isWhiteSpace_def)
  show ?thesis
    using empty_transcript_fails
      [of sampleEnv sampleState sampleAudio "lit ''lecture.mp3''"
          "scriptedBackend (Resolved (Some (lit ''   ''))) (Rejected NotAnError) (Rejected NotAnError)"
          "Some (lit ''   '')"]
      sample_ready scripted_stage1 ws
    by simp
qed

text \<open>
  C5. With a missing credential the run stops at once with a configuration error that is
  not retryable; with the credential present but the media not yet encoded (no audio data
  or no file) it stops at once with a readiness error that is retryable. Either way
  nothing but the error changes in the state and the run has no effect at all: no
  loading message of stage 1 is shown and no remote call is made.
\<close>

theorem preconditions_fail_immediately:
  "(missing (API_KEY e) \<longrightarrow>
      handleGenerate e gen st =
        (st\<lparr>error := Some \<lparr>message = lit ''API_KEY environment variable is not set.'',
                            retryable = False\<rparr>\<rparr>, [])) \<and>
   (\<not> missing (API_KEY e) \<and> (audioData st = None \<or> mediaFile st = None) \<longrightarrow>
      handleGenerate e gen st =
        (st\<lparr>error := Some \<lparr>message = lit ''Audio data not ready. Please wait a moment after selecting a file or try re-selecting.'',
                            retryable = True\<rparr>\<rparr>, []))"
  by (auto simp: handleGenerate_def split: option.splits)

theorem preconditions_fail_immediately_witness:
  "handleGenerate (sampleEnv\<lparr>API_KEY := None\<rparr>) (\<lambda>r. Rejected NotAnError) sampleState =
     (sampleState\<lparr>error := Some \<lparr>message = lit ''API_KEY environment variable is not set.'',
                                   retryable = False\<rparr>\<rparr>, []) \<and>
   handleGenerate sampleEnv (\<lambda>r. Rejected NotAnError) (initialState None) =
     ((initialState None)\<lparr>error := Some \<lparr>message = lit ''Audio data not ready. Please wait a moment after selecting a file or try re-selecting.'',
                                          retryable = True\<rparr>\<rparr>, [])"
proof -
  have k: "missing (API_KEY (sampleEnv\<lparr>API_KEY := None\<rparr>))"
    by (simp add: missing_def)
  have a: "audioData (initialState None) = None"
    by (simp add: initialState_def)
  show ?thesis
    using preconditions_fail_immediately
            [of "sampleEnv\<lparr>API_KEY := None\<rparr>" "\<lambda>r. Rejected NotAnError" sampleState]
          preconditions_fail_immediately
            [of sampleEnv "\<lambda>r. Rejected NotAnError" "initialState None"]
          k a sample_ready(1)
    by simp
qed

section \<open>The stages and the code fence\<close>








lemma remoteCalls_append: "remoteCalls (xs @ ys) = remoteCalls xs @ remoteCalls ys"
  by (induction xs rule: remoteCalls.induct) simp_all

lemma runStages_rejected1:
  assumes "gen (transcriptionRequest a) = Rejected err"
  shows "runStages gen a =
           (Inl err, [SetLoadingMessage (lit ''Step 1/3: Transcribing audio...''),
                      StartProgressSimulation, GenerateContent (transcriptionRequest a)])"
  using assms by (simp add: runStages_def)

lemma runStages_transcribed:
  assumes "gen (transcriptionRequest a) = Resolved (Some t)" and "trim t \<noteq> []"
  shows "runStages gen a =
           (fst (studyGuideStage gen t),
            [SetLoadingMessage (lit ''Step 1/3: Transcribing audio...''),
             StartProgressSimulation, GenerateContent (transcriptionRequest a),
             ClearInterval, SetProgress 100] @ snd (studyGuideStage gen t))"
  using assms by (simp add: runStages_def split_beta)

lemma studyGuideStage_rejected:
  assumes "gen (studyGuideRequest t) = Rejected err"
  shows "studyGuideStage gen t =
           (Inl err, [SetLoadingMessage (lit ''Step 2/3: Analyzing transcript and generating study guide...''),
                      SetProgress 0, StartProgressSimulation,
                      GenerateContent (studyGuideRequest t)])"
  using assms by (simp add: studyGuideStage_def)

lemma studyGuideStage_malformed:
  assumes "gen (studyGuideRequest t) = Resolved rt" and "parseStudyGuide rt = None"
  shows "studyGuideStage gen t =
           (Inl (Error malformedResponseMessage),
            [SetLoadingMessage (lit ''Step 2/3: Analyzing transcript and generating study guide...''),
             SetProgress 0, StartProgressSimulation,
             GenerateContent (studyGuideRequest t), ClearInterval, SetProgress 100])"
  using assms by (simp add: studyGuideStage_def)

lemma studyGuideStage_parsed:
  assumes "gen (studyGuideRequest t) = Resolved rt" and "parseStudyGuide rt = Some g"
  shows "studyGuideStage gen t =
           (fst (detailedNotesStage gen t g),
            [SetLoadingMessage (lit ''Step 2/3: Analyzing transcript and generating study guide...''),
             SetProgress 0, StartProgressSimulation,
             GenerateContent (studyGuideRequest t), ClearInterval, SetProgress 100]
            @ snd (detailedNotesStage gen t g))"
  using assms by (simp add: studyGuideStage_def split_beta)

lemma detailedNotesStage_rejected:
  assumes "gen (detailedNotesRequest t) = Rejected err"
  shows "detailedNotesStage gen t g =
           (Inl err, [SetLoadingMessage (lit ''Step 3/3: Composing detailed lecture notes...''),
                      SetProgress 0, StartProgressSimulation,
                      GenerateContent (detailedNotesRequest t)])"
  using assms by (simp add: detailedNotesStage_def)

lemma detailedNotesStage_resolved:
  assumes "gen (detailedNotesRequest t) = Resolved notes"
  shows "detailedNotesStage gen t g =
           (Inr (finalMaterials g t notes),
            [SetLoadingMessage (lit ''Step 3/3: Composing detailed lecture notes...''),
             SetProgress 0, StartProgressSimulation,
             GenerateContent (detailedNotesRequest t), ClearInterval, SetProgress 100])"
  using assms by (simp add: detailedNotesStage_def)



lemma sample_malformed: "parseStudyGuide (Some (lit ''[1,]'')) = None"
  by code_simp

lemma sample_transcript: "trim (lit ''hello'') \<noteq> []"
  by code_simp


section \<open>Transport failures\<close>

lemma catchError_retryable:
  "retryable (catchError err) \<longleftrightarrow>
     (case err of
        NotAnError \<Rightarrow> True
      | Error m \<Rightarrow>
          includes_str m (lit ''xhr error'') \<or> includes_str m (lit ''500'') \<or>
          \<not> includes_str m (lit ''Transcription failed''))"
  by (simp add: catchError_def split: thrown.splits)

lemma runStages_rejected:
  assumes "gen (transcriptionRequest a) = Rejected err \<or>
     (\<exists>t. gen (transcriptionRequest a) = Resolved (Some t) \<and> trim t \<noteq> [] \<and>
        (gen (studyGuideRequest t) = Rejected err \<or>
         (\<exists>rt g. gen (studyGuideRequest t) = Resolved rt \<and> parseStudyGuide rt = Some g \<and>
            gen (detailedNotesRequest t) = Rejected err)))"
  shows "fst (runStages gen a) = Inl err"
  using assms
  by (auto simp: runStages_rejected1 runStages_transcribed studyGuideStage_rejected
      studyGuideStage_parsed detailedNotesStage_rejected)

text \<open>
  C2, as the code has it. When a remote call of a run is rejected, at stage 1, 2 or 3, the
  run ends with the error the catch makes of the rejection. That error is retryable
  when what was thrown is not an \<open>Error\<close>, or its message contains \<open>xhr error\<close> or
  \<open>500\<close>, or does not contain \<open>Transcription failed\<close>. The record displayed before the
  run is not kept: the run cleared it when it started, so no record is displayed after
  the failure, and nothing else of the state changes but the indicators.
\<close>

theorem transport_failure_clears_record:
  assumes "\<not> missing (API_KEY e)" and "audioData st = Some a" and "mediaFile st = Some f"
    and "gen (transcriptionRequest a) = Rejected err \<or>
     (\<exists>t. gen (transcriptionRequest a) = Resolved (Some t) \<and> trim t \<noteq> [] \<and>
        (gen (studyGuideRequest t) = Rejected err \<or>
         (\<exists>rt g. gen (studyGuideRequest t) = Resolved rt \<and> parseStudyGuide rt = Some g \<and>
            gen (detailedNotesRequest t) = Rejected err)))"
  shows "fst (handleGenerate e gen st) =
           st\<lparr>isProcessing := False, loadingMessage := [], studyMaterials := None,
              error := Some (catchError err), progress := 0, progressTimer := False\<rparr> \<and>
         (retryable (catchError err) \<longleftrightarrow>
            (case err of
               NotAnError \<Rightarrow> True
             | Error m \<Rightarrow>
                 includes_str m (lit ''xhr error'') \<or> includes_str m (lit ''500'') \<or>
                 \<not> includes_str m (lit ''Transcription failed'')))"
proof -
  have "fst (runStages gen a) = Inl err"
    using assms(4) by (rule runStages_rejected)
  then have "runStages gen a = (Inl err, snd (runStages gen a))"
    by (metis prod.collapse)
  then have "handleGenerate e gen st =
           (st\<lparr>isProcessing := False, loadingMessage := [], studyMaterials := None,
              error := Some (catchError err), progress := 0, progressTimer := False\<rparr>,
            snd (runStages gen a))"
    using assms(1-3) handleGenerate_failed [of e st a f gen err "snd (runStages gen a)"] by simp
  then show ?thesis
    using catchError_retryable [of err] by simp
qed

lemma sample_guide: "parseStudyGuide (Some (lit ''{}'')) = Some (JObj [])"
  by code_simp

lemma xhr_includes: "includes_str (lit ''xhr error'') (lit ''xhr error'')"
  by code_simp

lemma catchError_xhr:
  "catchError (Error (lit ''xhr error'')) = \<lparr>message = networkErrorMessage, retryable = True\<rparr>"
  by (simp add: catchError_def xhr_includes)

theorem transport_failure_clears_record_witness:
  "fst (handleGenerate sampleEnv
      (scriptedBackend (Resolved (Some (lit ''hello''))) (Resolved (Some (lit ''{}'')))
         (Rejected (Error (lit ''xhr error''))))
      (sampleState\<lparr>studyMaterials := Some sampleMaterials\<rparr>)) =
   sampleState\<lparr>error := Some \<lparr>message = networkErrorMessage, retryable = True\<rparr>\<rparr>"
proof -
  let ?gen = "scriptedBackend (Resolved (Some (lit ''hello''))) (Resolved (Some (lit ''{}'')))
         (Rejected (Error (lit ''xhr error'')))"
  let ?st = "sampleState\<lparr>studyMaterials := Some sampleMaterials\<rparr>"
  have ready: "\<not> missing (API_KEY sampleEnv)" "audioData ?st = Some sampleAudio"
    "mediaFile ?st = Some (lit ''lecture.mp3'')"
    using sample_ready by simp_all
  have fail: "?gen (transcriptionRequest sampleAudio) = Rejected (Error (lit ''xhr error'')) \<or>
     (\<exists>t. ?gen (transcriptionRequest sampleAudio) = Resolved (Some t) \<and> trim t \<noteq> [] \<and>
        (?gen (studyGuideRequest t) = Rejected (Error (lit ''xhr error'')) \<or>
         (\<exists>rt g. ?gen (studyGuideRequest t) = Resolved rt \<and> parseStudyGuide rt = Some g \<and>
            ?gen (detailedNotesRequest t) = Rejected (Error (lit ''xhr error'')))))"
    using sample_transcript sample_guide
    by (simp add: scripted_stage1 scripted_stage2 scripted_stage3)
  have "sampleState\<lparr>studyMaterials := Some sampleMaterials\<rparr>
          \<lparr>isProcessing := False, loadingMessage := [], studyMaterials := None,
           error := Some \<lparr>message = networkErrorMessage, retryable = True\<rparr>, progress := 0,
           progressTimer := False\<rparr> =
        sampleState\<lparr>error := Some \<lparr>message = networkErrorMessage, retryable = True\<rparr>\<rparr>"
    by (simp add: sampleState_def initialState_def)
  then show ?thesis
    using transport_failure_clears_record [OF ready fail] by (simp add: catchError_xhr)
qed

lemma marker_includes:
  "includes_str (lit ''Transcription failed upstream'') (lit ''Transcription failed'')"
  "\<not> includes_str (lit ''Transcription failed upstream'') (lit ''xhr error'')"
  "\<not> includes_str (lit ''Transcription failed upstream'') (lit ''500'')"
  by code_simp+

text \<open>
  C2 as stated fails twice. A record displayed before a run whose transcription call is
  rejected is gone after the run; and a rejection whose message contains
  \<open>Transcription failed\<close> is classified as not retryable.
\<close>

theorem transport_failure_counterexample:
  "studyMaterials (sampleState\<lparr>studyMaterials := Some sampleMaterials\<rparr>) = Some sampleMaterials \<and>
   studyMaterials (fst (handleGenerate sampleEnv
      (scriptedBackend (Rejected (Error (lit ''xhr error''))) (Rejected NotAnError) (Rejected NotAnError))
      (sampleState\<lparr>studyMaterials := Some sampleMaterials\<rparr>))) = None \<and>
   error (fst (handleGenerate sampleEnv
      (scriptedBackend (Rejected (Error (lit ''Transcription failed upstream''))) (Rejected NotAnError)
         (Rejected NotAnError))
      sampleState)) =
     Some \<lparr>message = lit ''Transcription failed upstream'', retryable = False\<rparr>"
proof -
  let ?st = "sampleState\<lparr>studyMaterials := Some sampleMaterials\<rparr>"
  have ready: "\<not> missing (API_KEY sampleEnv)" "audioData ?st = Some sampleAudio"
    "mediaFile ?st = Some (lit ''lecture.mp3'')"
    using sample_ready by simp_all
  have 1: "studyMaterials (fst (handleGenerate sampleEnv
      (scriptedBackend (Rejected (Error (lit ''xhr error''))) (Rejected NotAnError) (Rejected NotAnError))
      ?st)) = None"
    using handleGenerate_failed [OF ready runStages_rejected1, of _ "Error (lit ''xhr error'')"]
    by (simp add: scripted_stage1)
  have 2: "error (fst (handleGenerate sampleEnv
      (scriptedBackend (Rejected (Error (lit ''Transcription failed upstream''))) (Rejected NotAnError)
         (Rejected NotAnError))
      sampleState)) =
     Some (catchError (Error (lit ''Transcription failed upstream'')))"
    using handleGenerate_failed [OF sample_ready runStages_rejected1, of _ "Error (lit ''Transcription failed upstream'')"]
    by (simp add: scripted_stage1)
  show ?thesis
    using 1 2 by (simp add: catchError_def marker_includes)
qed

section \<open>Completed runs and retries\<close>

lemma key_literals:
  "lit ''transcript'' \<noteq> lit ''detailedNotes''"
  by (simp add: lit_def)

text \<open>
  C4. The claim is that the record of every completed run has all seven fields populated
  and a transcript that is not empty. The code does not ensure it. When stage 2 answers
  \<open>{}\<close> and the stage-3 response carries no text, the run ends without an error and
  displays, and saves first in the history, a record that has a populated transcript
  only: \<open>summary\<close>, \<open>keySections\<close>, \<open>formulas\<close>, \<open>glossary\<close> and
  \<open>examQuestions\<close> are absent and \<open>detailedNotes\<close> is undefined. The record breaks
  the type \<open>StudyMaterials\<close> the source gives it, and stage 3 lacks the check of the
  response text that stage 1 makes.
\<close>

theorem completed_run_missing_fields:
  "error (fst (handleGenerate sampleEnv
     (scriptedBackend (Resolved (Some (lit ''hello''))) (Resolved (Some (lit ''{}''))) (Resolved None))
     sampleState)) = None \<and>
   studyMaterials (fst (handleGenerate sampleEnv
     (scriptedBackend (Resolved (Some (lit ''hello''))) (Resolved (Some (lit ''{}''))) (Resolved None))
     sampleState)) =
     Some [(lit ''transcript'', Some (JStr (lit ''hello''))), (lit ''detailedNotes'', None)] \<and>
   history (fst (handleGenerate sampleEnv
     (scriptedBackend (Resolved (Some (lit ''hello''))) (Resolved (Some (lit ''{}''))) (Resolved None))
     sampleState)) =
     [\<lparr>item_id = 1700000000000, filename = lit ''lecture.mp3'',
       materials = [(lit ''transcript'', Some (JStr (lit ''hello''))), (lit ''detailedNotes'', None)]\<rparr>] \<and>
   populated [(lit ''transcript'', Some (JStr (lit ''hello''))), (lit ''detailedNotes'', None)]
        (lit ''transcript'') \<and>
   \<not> populated [(lit ''transcript'', Some (JStr (lit ''hello''))), (lit ''detailedNotes'', None)]
        (lit ''summary'') \<and>
   \<not> populated [(lit ''transcript'', Some (JStr (lit ''hello''))), (lit ''detailedNotes'', None)]
        (lit ''keySections'') \<and>
   \<not> populated [(lit ''transcript'', Some (JStr (lit ''hello''))), (lit ''detailedNotes'', None)]
        (lit ''formulas'') \<and>
   \<not> populated [(lit ''transcript'', Some (JStr (lit ''hello''))), (lit ''detailedNotes'', None)]
        (lit ''glossary'') \<and>
   \<not> populated [(lit ''transcript'', Some (JStr (lit ''hello''))), (lit ''detailedNotes'', None)]
        (lit ''examQuestions'') \<and>
   \<not> populated [(lit ''transcript'', Some (JStr (lit ''hello''))), (lit ''detailedNotes'', None)]
        (lit ''detailedNotes'')"
proof -
  let ?gen = "scriptedBackend (Resolved (Some (lit ''hello''))) (Resolved (Some (lit ''{}'')))
        (Resolved None)"
  let ?rec = "[(lit ''transcript'', Some (JStr (lit ''hello''))), (lit ''detailedNotes'', None)]"
  have "fst (runStages ?gen sampleAudio) = Inr (finalMaterials (JObj []) (lit ''hello'') None)"
    using sample_transcript sample_guide
    by (simp add: runStages_transcribed [of _ _ "lit ''hello''"]
        studyGuideStage_parsed [of _ _ "Some (lit ''{}'')" "JObj []"]
        detailedNotesStage_resolved [of _ _ None]
        scripted_stage1 scripted_stage2 scripted_stage3)
  then have "runStages ?gen sampleAudio =
          (Inr (finalMaterials (JObj []) (lit ''hello'') None), snd (runStages ?gen sampleAudio))"
    by (metis prod.collapse)
  then have hg: "fst (handleGenerate sampleEnv ?gen sampleState) =
      sampleState\<lparr>isProcessing := False, loadingMessage := [],
         studyMaterials := Some (finalMaterials (JObj []) (lit ''hello'') None),
         error := None, activeTab := Notes, progress := 0, progressTimer := False,
         history := \<lparr>item_id = now sampleEnv, filename = lit ''lecture.mp3'',
                      materials = finalMaterials (JObj []) (lit ''hello'') None\<rparr> # history sampleState,
         storage := Some (stringify sampleEnv
            (\<lparr>item_id = now sampleEnv, filename = lit ''lecture.mp3'',
               materials = finalMaterials (JObj []) (lit ''hello'') None\<rparr> # history sampleState))\<rparr>"
    using handleGenerate_completed [OF sample_ready, of ?gen] by simp
  have fm: "finalMaterials (JObj []) (lit ''hello'') None = ?rec"
    by (simp add: finalMaterials_def key_literals)
  have h: "history sampleState = []" "now sampleEnv = 1700000000000"
    by (simp_all add: sampleState_def initialState_def sampleEnv_def)
  have pt: "populated ?rec (lit ''transcript'')"
    by (simp add: populated_def)
  have np: "\<not> populated ?rec (lit ''summary'')" "\<not> populated ?rec (lit ''keySections'')"
    "\<not> populated ?rec (lit ''formulas'')" "\<not> populated ?rec (lit ''glossary'')"
    "\<not> populated ?rec (lit ''examQuestions'')" "\<not> populated ?rec (lit ''detailedNotes'')"
    by (simp_all add: populated_def lit_def)
  show ?thesis
    unfolding hg using pt np by (simp add: fm h)
qed

lemma handleGenerate_keeps_media:
  "audioData (fst (handleGenerate e gen st)) = audioData st \<and>
   mediaFile (fst (handleGenerate e gen st)) = mediaFile st"
  by (auto simp: handleGenerate_def handleSaveToHistory_def Let_def split_beta
      split: option.splits sum.splits)

lemma runStages_starts:
  "\<exists>rest. snd (runStages gen a) =
     SetLoadingMessage (lit ''Step 1/3: Transcribing audio...'') # StartProgressSimulation #
     GenerateContent (transcriptionRequest a) # rest"
  by (simp add: runStages_def split_beta Let_def split: response.splits option.splits)

lemma handleGenerate_trace:
  assumes "\<not> missing (API_KEY e)" and "audioData st = Some a" and "mediaFile st = Some f"
  shows "snd (handleGenerate e gen st) = snd (runStages gen a)"
  using assms by (simp add: handleGenerate_def split_beta Let_def)

lemma handleGenerate_not_ready:
  assumes "\<not> missing (API_KEY e)" and "audioData st = None \<or> mediaFile st = None"
  shows "snd (handleGenerate e gen st) = []"
  using assms by (auto simp: handleGenerate_def split: option.splits)

lemma sample_malformed_run:
  "error (fst (handleGenerate sampleEnv
      (scriptedBackend (Resolved (Some (lit ''hello''))) (Resolved (Some (lit ''[1,]''))) (Rejected NotAnError))
      sampleState)) = Some \<lparr>message = malformedResponseMessage, retryable = True\<rparr>"
proof -
  let ?gen = "scriptedBackend (Resolved (Some (lit ''hello''))) (Resolved (Some (lit ''[1,]''))) (Rejected NotAnError)"
  have "fst (runStages ?gen sampleAudio) = Inl (Error malformedResponseMessage)"
    using sample_transcript sample_malformed
    by (simp add: runStages_transcribed [of _ _ "lit ''hello''"]
        studyGuideStage_malformed [of _ _ "Some (lit ''[1,]'')"]
        scripted_stage1 scripted_stage2)
  then have "runStages ?gen sampleAudio =
      (Inl (Error malformedResponseMessage), snd (runStages ?gen sampleAudio))"
    by (metis prod.collapse)
  then show ?thesis
    using handleGenerate_failed [OF sample_ready, of ?gen] by (simp add: catchError_malformed)
qed

lemma retryable_has_key:
  assumes "error (fst (handleGenerate e gen st)) = Some err" and "retryable err"
  shows "\<not> missing (API_KEY e)"
  using assms by (auto simp: handleGenerate_def)

text \<open>
  C6. After a run that ended with a retryable error, the state holds the same audio data
  and the same file as before that run, and running \<open>handleGenerate\<close> again, which is
  what the retry button does, starts from stage 1 whatever the backend answers: with the
  media present its effects begin with the loading message of stage 1 and the
  transcription request for that same audio data, which is its first remote call; with
  the media absent it has no effect at all. Nothing in the run reads the file again.
\<close>

theorem retry_restarts_from_transcription:
  assumes "error (fst (handleGenerate e gen st)) = Some err" and "retryable err"
  shows "audioData (fst (handleGenerate e gen st)) = audioData st \<and>
         mediaFile (fst (handleGenerate e gen st)) = mediaFile st \<and>
         (\<forall>a f. audioData st = Some a \<and> mediaFile st = Some f \<longrightarrow>
            (\<exists>rest. snd (handleGenerate e gen' (fst (handleGenerate e gen st))) =
               SetLoadingMessage (lit ''Step 1/3: Transcribing audio...'') #
               StartProgressSimulation # GenerateContent (transcriptionRequest a) # rest) \<and>
            (\<exists>calls. remoteCalls (snd (handleGenerate e gen' (fst (handleGenerate e gen st)))) =
               transcriptionRequest a # calls)) \<and>
         (audioData st = None \<or> mediaFile st = None \<longrightarrow>
            snd (handleGenerate e gen' (fst (handleGenerate e gen st))) = [])"
proof -
  let ?st' = "fst (handleGenerate e gen st)"
  have key: "\<not> missing (API_KEY e)"
    using assms by (rule retryable_has_key)
  have media: "audioData ?st' = audioData st" "mediaFile ?st' = mediaFile st"
    using handleGenerate_keeps_media by simp_all
  have started: "\<exists>rest. snd (handleGenerate e gen' ?st') =
               SetLoadingMessage (lit ''Step 1/3: Transcribing audio...'') #
               StartProgressSimulation # GenerateContent (transcriptionRequest a) # rest"
    if "audioData st = Some a" and "mediaFile st = Some f" for a f
    using that key media handleGenerate_trace [of e ?st' a f gen'] runStages_starts [of gen' a]
    by simp
  have calls: "\<exists>calls. remoteCalls (snd (handleGenerate e gen' ?st')) = transcriptionRequest a # calls"
    if "audioData st = Some a" and "mediaFile st = Some f" for a f
    using started [OF that] by auto
  have idle: "snd (handleGenerate e gen' ?st') = []"
    if "audioData st = None \<or> mediaFile st = None"
    using that key media handleGenerate_not_ready [of e ?st' gen'] by simp
  show ?thesis
    using media started calls idle by blast
qed

theorem retry_restarts_from_transcription_witness:
  "error (fst (handleGenerate sampleEnv
      (scriptedBackend (Resolved (Some (lit ''hello''))) (Resolved (Some (lit ''[1,]''))) (Rejected NotAnError))
      sampleState)) = Some \<lparr>message = malformedResponseMessage, retryable = True\<rparr> \<and>
   audioData (fst (handleGenerate sampleEnv
      (scriptedBackend (Resolved (Some (lit ''hello''))) (Resolved (Some (lit ''[1,]''))) (Rejected NotAnError))
      sampleState)) = Some sampleAudio \<and>
   (\<exists>calls. remoteCalls (snd (handleGenerate sampleEnv
      (scriptedBackend (Resolved (Some (lit ''hello''))) (Resolved (Some sampleGuideText))
         (Resolved (Some (lit ''# Notes''))))
      (fst (handleGenerate sampleEnv
         (scriptedBackend (Resolved (Some (lit ''hello''))) (Resolved (Some (lit ''[1,]''))) (Rejected NotAnError))
         sampleState)))) = transcriptionRequest sampleAudio # calls)"
proof -
  let ?gen = "scriptedBackend (Resolved (Some (lit ''hello''))) (Resolved (Some (lit ''[1,]''))) (Rejected NotAnError)"
  have err: "error (fst (handleGenerate sampleEnv ?gen sampleState)) =
      Some \<lparr>message = malformedResponseMessage, retryable = True\<rparr>"
    by (rule sample_malformed_run)
  have r: "retryable \<lparr>message = malformedResponseMessage, retryable = True\<rparr>"
    by simp
  show ?thesis
    using retry_restarts_from_transcription [OF err r] err sample_ready by simp
qed

section \<open>The history store: properties\<close>

text \<open>
  C8. Saving to a history \<open>h\<close> lists the new entry first, followed by \<open>h\<close> in its
  order. Deleting an id lists exactly the entries of \<open>h\<close> whose id differs from it, in
  the order they had in \<open>h\<close>: the list after is the filter of the list before, a
  subsequence of it, with the entries of another id as its elements. Both operations
  write the new list to the storage.
\<close>

theorem history_append_remove:
  "history (handleSaveToHistory e fname mats st) =
     \<lparr>item_id = now e, filename = fname, materials = mats\<rparr> # history st \<and>
   history (handleDeleteFromHistory e i st) = filter (\<lambda>item. item_id item \<noteq> i) (history st) \<and>
   subseq (history (handleDeleteFromHistory e i st)) (history st) \<and>
   set (history (handleDeleteFromHistory e i st)) = {item \<in> set (history st). item_id item \<noteq> i} \<and>
   storage (handleSaveToHistory e fname mats st) =
     Some (stringify e (history (handleSaveToHistory e fname mats st))) \<and>
   storage (handleDeleteFromHistory e i st) =
     Some (stringify e (history (handleDeleteFromHistory e i st)))"
  by (simp add: handleSaveToHistory_def handleDeleteFromHistory_def Let_def)

theorem history_append_remove_witness:
  "history (handleSaveToHistory sampleEnv (lit ''b.wav'') []
      (sampleState\<lparr>history := [sampleItem 2, sampleItem 1]\<rparr>)) =
     [\<lparr>item_id = 1700000000000, filename = lit ''b.wav'', materials = []\<rparr>,
      sampleItem 2, sampleItem 1] \<and>
   history (handleDeleteFromHistory sampleEnv 2
      (sampleState\<lparr>history := [sampleItem 3, sampleItem 2, sampleItem 1]\<rparr>)) =
     [sampleItem 3, sampleItem 1]"
  using history_append_remove
          [of sampleEnv "lit ''b.wav''" "[]" "sampleState\<lparr>history := [sampleItem 2, sampleItem 1]\<rparr>"]
        history_append_remove
          [of sampleEnv _ _ "sampleState\<lparr>history := [sampleItem 3, sampleItem 2, sampleItem 1]\<rparr>" 2]
  by (simp add: sampleEnv_def sampleItem_def)

text \<open>
  C10. Deleting an id that no entry carries leaves the list as it is; deleting the same
  id a second time changes nothing more, in the list and in the storage; and after one
  deletion no entry carries the id, however many carried it before.
\<close>

theorem remove_absent_idempotent:
  "(i \<notin> item_id ` set (history st) \<longrightarrow>
      history (handleDeleteFromHistory e i st) = history st) \<and>
   handleDeleteFromHistory e i (handleDeleteFromHistory e i st) = handleDeleteFromHistory e i st \<and>
   i \<notin> item_id ` set (history (handleDeleteFromHistory e i st))"
proof -
  have "i \<notin> item_id ` set (history st) \<Longrightarrow>
          filter (\<lambda>item. item_id item \<noteq> i) (history st) = history st"
    by (rule filter_True) auto
  then show ?thesis
    by (auto simp: handleDeleteFromHistory_def Let_def)
qed

theorem remove_absent_idempotent_witness:
  "history (handleDeleteFromHistory sampleEnv 3
      (sampleState\<lparr>history := [sampleItem 1, sampleItem 2, sampleItem 1]\<rparr>)) =
     [sampleItem 1, sampleItem 2, sampleItem 1] \<and>
   history (handleDeleteFromHistory sampleEnv 1
      (sampleState\<lparr>history := [sampleItem 1, sampleItem 2, sampleItem 1]\<rparr>)) = [sampleItem 2]"
proof -
  have absent: "3 \<notin> item_id ` set (history (sampleState\<lparr>history := [sampleItem 1, sampleItem 2, sampleItem 1]\<rparr>))"
    by (simp add: sampleItem_def)
  have "history (handleDeleteFromHistory sampleEnv 3
      (sampleState\<lparr>history := [sampleItem 1, sampleItem 2, sampleItem 1]\<rparr>)) =
     [sampleItem 1, sampleItem 2, sampleItem 1]"
    using remove_absent_idempotent
            [of 3 "sampleState\<lparr>history := [sampleItem 1, sampleItem 2, sampleItem 1]\<rparr>" sampleEnv]
          absent
    by simp
  moreover have "history (handleDeleteFromHistory sampleEnv 1
      (sampleState\<lparr>history := [sampleItem 1, sampleItem 2, sampleItem 1]\<rparr>)) = [sampleItem 2]"
    by (simp add: handleDeleteFromHistory_def sampleItem_def Let_def)
  ultimately show ?thesis by simp
qed

text \<open>
  C9. When the stored blob is not valid JSON, loading the history does not fail: it
  returns a state whose history is the empty list. A blob that is not the empty string is
  removed from the storage; the empty string is taken as nothing stored and stays.
\<close>

theorem corrupt_blob_discarded:
  assumes "JSON_parse blob = None"
  shows "loadHistory (initialState (Some blob)) =
           Inr (initialState (if blob = [] then Some blob else None)) \<and>
         history (initialState (if blob = [] then Some blob else None)) = []"
  using assms by (simp add: loadHistory_def initialState_def)

lemma corrupt_sample: "JSON_parse (lit ''[{oops'') = None"
  by code_simp

theorem corrupt_blob_discarded_witness:
  "JSON_parse (lit ''[{oops'') = None \<and>
   loadHistory (initialState (Some (lit ''[{oops''))) = Inr (initialState None)"
proof -
  have ne: "lit ''[{oops'' \<noteq> []"
    by (simp add: lit_def)
  show ?thesis
    using corrupt_blob_discarded [OF corrupt_sample] corrupt_sample ne by simp
qed

section \<open>The progress simulation\<close>

lemma bitlen_powi:
  assumes "0 < n"
  shows "(2::rat) powi (bitlen n - 1) \<le> of_int n" and "of_int n < (2::rat) powi bitlen n"
proof -
  have b: "2 ^ nat (bitlen n - 1) \<le> n" "n < 2 ^ nat (bitlen n)"
    using bitlen_bounds [OF assms] by simp_all
  have b1: "1 \<le> bitlen n"
    using assms by (simp add: bitlen_alt_def)
  have "(2::rat) powi (bitlen n - 1) = 2 ^ nat (bitlen n - 1)"
    using b1 by (simp add: power_int_nonneg_exp)
  also have "\<dots> = of_int (2 ^ nat (bitlen n - 1))" by simp
  also have "\<dots> \<le> of_int n" using b(1) by (simp only: of_int_le_iff)
  finally show "(2::rat) powi (bitlen n - 1) \<le> of_int n" .
  have "(of_int n :: rat) < of_int (2 ^ nat (bitlen n))"
    using b(2) by (simp only: of_int_less_iff)
  also have "\<dots> = 2 powi bitlen n"
    using b1 by (simp add: power_int_nonneg_exp)
  finally show "of_int n < (2::rat) powi bitlen n" .
qed

lemma expo_bounds:
  assumes "x \<noteq> 0"
  shows "2 powi expo x \<le> \<bar>x\<bar>" and "\<bar>x\<bar> < 2 powi (expo x + 1)"
proof -
  obtain n d where q: "quotient_of \<bar>x\<bar> = (n, d)" by (cases "quotient_of \<bar>x\<bar>")
  have d: "0 < d" using q by (rule quotient_of_denom_pos)
  have x: "\<bar>x\<bar> = of_int n / of_int d" using q by (rule quotient_of_div)
  have n: "0 < n"
  proof -
    have "0 < \<bar>x\<bar>" using assms by simp
    then have "0 < (of_int n :: rat) / of_int d" using x by simp
    then show ?thesis using d by (simp add: zero_less_divide_iff)
  qed
  let ?k = "bitlen n - bitlen d"
  have lo: "2 powi (?k - 1) < \<bar>x\<bar>"
  proof -
    have "(2::rat) powi (?k - 1) = 2 powi ((bitlen n - 1) - bitlen d)"
      by (simp add: algebra_simps)
    also have "\<dots> = 2 powi (bitlen n - 1) / 2 powi bitlen d"
      by (rule power_int_diff) simp
    also have "\<dots> \<le> of_int n / 2 powi bitlen d"
      using bitlen_powi(1) [OF n] by (simp add: divide_right_mono)
    also have "\<dots> < of_int n / of_int d"
      using bitlen_powi(2) [OF d] n d by (simp add: divide_strict_left_mono)
    finally show ?thesis using x by simp
  qed
  have hi: "\<bar>x\<bar> < 2 powi (?k + 1)"
  proof -
    have "(of_int n :: rat) / of_int d < 2 powi bitlen n / of_int d"
      using bitlen_powi(2) [OF n] d by (simp add: divide_strict_right_mono)
    also have "\<dots> \<le> 2 powi bitlen n / 2 powi (bitlen d - 1)"
      using bitlen_powi(1) [OF d] d by (intro divide_left_mono) simp_all
    also have "\<dots> = 2 powi (bitlen n - (bitlen d - 1))"
      by (rule power_int_diff [symmetric]) simp
    also have "\<dots> = 2 powi (?k + 1)"
      by (simp add: algebra_simps)
    finally show ?thesis using x by simp
  qed
  have e: "expo x = (if 2 powi ?k \<le> \<bar>x\<bar> then ?k else ?k - 1)"
    by (simp add: expo_def q Let_def)
  show "2 powi expo x \<le> \<bar>x\<bar>"
    using lo by (simp add: e)
  show "\<bar>x\<bar> < 2 powi (expo x + 1)"
    using hi by (auto simp: e)
qed

lemma two_powi_less_exp: "(2::rat) powi a < 2 powi b \<Longrightarrow> a < b"
proof (rule ccontr)
  assume l: "(2::rat) powi a < 2 powi b" and "\<not> a < b"
  then have "b \<le> a" by simp
  then have "(2::rat) powi b \<le> 2 powi a" by (intro power_int_increasing) simp_all
  then show False using l by simp
qed

lemma expo_unique:
  assumes "2 powi e \<le> \<bar>x\<bar>" and "\<bar>x\<bar> < 2 powi (e + 1)"
  shows "expo x = e"
proof -
  have nz: "x \<noteq> 0"
  proof
    assume "x = 0"
    then have "(2::rat) powi e \<le> 0" using assms(1) by simp
    moreover have "(0::rat) < 2 powi e" by simp
    ultimately show False by linarith
  qed
  have "(2::rat) powi expo x < 2 powi (e + 1)"
    using expo_bounds(1) [OF nz] assms(2) by simp
  then have 1: "expo x < e + 1" by (rule two_powi_less_exp)
  have "(2::rat) powi e < 2 powi (expo x + 1)"
    using expo_bounds(2) [OF nz] assms(1) by simp
  then have 2: "e < expo x + 1" by (rule two_powi_less_exp)
  show ?thesis using 1 2 by simp
qed

lemma expo_mono:
  assumes "0 < x" and "x \<le> y"
  shows "expo x \<le> expo y"
proof -
  have "(2::rat) powi expo x \<le> x" using expo_bounds(1) [of x] assms(1) by simp
  also have "\<dots> \<le> y" by (rule assms(2))
  also have "\<dots> < 2 powi (expo y + 1)" using expo_bounds(2) [of y] assms by simp
  finally have "expo x < expo y + 1" by (rule two_powi_less_exp)
  then show ?thesis by simp
qed

lemma round_even_le_round: "round_even q \<le> round q"
  by (simp add: round_even_def Let_def)

lemma round_even_le:
  assumes "q \<le> of_int k"
  shows "round_even q \<le> k"
proof -
  have "round q \<le> round (of_int k :: rat)" using assms by (rule round_mono)
  then show ?thesis using round_even_le_round [of q] by simp
qed

lemma round_even_less_half:
  assumes "q < of_int k + 1 / 2"
  shows "round_even q \<le> k"
proof -
  have "q + 1 / 2 < of_int (k + 1)" using assms by simp
  then have "\<lfloor>q + 1 / 2\<rfloor> < k + 1" by (simp only: floor_less_iff)
  then have "round q \<le> k" by (simp add: round_def)
  then show ?thesis using round_even_le_round [of q] by simp
qed

lemma round_even_ge:
  assumes "of_int k \<le> q"
  shows "k \<le> round_even q"
proof -
  have r: "k \<le> round q"
    using round_mono [OF assms] by simp
  show ?thesis
  proof (cases "of_int (round q) - q = 1 / 2 \<and> odd (round q)")
    case False
    then show ?thesis using r by (auto simp: round_even_def Let_def)
  next
    case True
    then have "(of_int k :: rat) \<le> of_int (round q) - 1 / 2" using assms by linarith
    then have "(of_int k :: rat) < of_int (round q)" by linarith
    then have "k < round q" by (simp only: of_int_less_iff)
    then show ?thesis using True by (simp add: round_even_def Let_def)
  qed
qed

lemma round_even_err: "\<bar>of_int (round_even q) - q\<bar> \<le> 1 / 2"
proof (cases "of_int (round q) - q = 1 / 2 \<and> odd (round q)")
  case False
  then have "round_even q = round q" by (auto simp: round_even_def Let_def)
  then show ?thesis using of_int_round_abs_le [of q] by simp
next
  case True
  then have "round_even q = round q - 1" by (simp add: round_even_def Let_def)
  then show ?thesis using True by simp
qed

lemma round_even_mono:
  assumes "a \<le> b"
  shows "round_even a \<le> round_even b"
proof -
  have rm: "round a \<le> round b" using assms by (rule round_mono)
  show ?thesis
  proof (cases "round a < round b")
    case True
    have "round_even a \<le> round a" by (rule round_even_le_round)
    moreover have "round b - 1 \<le> round_even b" by (simp add: round_even_def Let_def)
    ultimately show ?thesis using True by linarith
  next
    case False
    then have eq: "round a = round b" using rm by simp
    show ?thesis
    proof (cases "of_int (round b) - b = 1 / 2 \<and> odd (round b)")
      case False
      then have "round_even b = round b" by (auto simp: round_even_def Let_def)
      then show ?thesis using round_even_le_round [of a] eq by simp
    next
      case True
      have "of_int (round a) - a \<le> 1 / 2"
        using of_int_round_abs_le [of a] by linarith
      then have "a = b" using True eq assms by linarith
      then show ?thesis by simp
    qed
  qed
qed

lemma fl_0: "fl 0 = 0"
  by (simp add: fl_def round_even_def)

lemma ulp_exp_ge: "expo x - 52 \<le> ulp_exp x" "- 1074 \<le> ulp_exp x"
  by (simp_all add: ulp_exp_def)

lemma fl_scaled:
  "fl x = of_int (round_even (x / 2 powi ulp_exp x)) * 2 powi ulp_exp x"
  by (simp add: fl_def)

lemma fl_nonneg:
  assumes "0 \<le> x"
  shows "0 \<le> fl x"
proof -
  have "(of_int 0 :: rat) \<le> x / 2 powi ulp_exp x" using assms by simp
  then have "0 \<le> round_even (x / 2 powi ulp_exp x)" by (rule round_even_ge)
  then show ?thesis by (simp add: fl_def)
qed

lemma fl_upper:
  assumes "0 < x"
  shows "fl x \<le> 2 powi (ulp_exp x + 53)"
proof -
  let ?u = "ulp_exp x"
  have "x < 2 powi (expo x + 1)" using expo_bounds(2) [of x] assms by simp
  also have "\<dots> \<le> 2 powi (?u + 53)"
    using ulp_exp_ge(1) [of x] by (intro power_int_increasing) simp_all
  also have "\<dots> = 2 powi 53 * 2 powi ?u"
    by (simp add: power_int_add add.commute)
  finally have "x / 2 powi ?u < 2 powi 53"
    by (simp add: pos_divide_less_eq)
  then have "x / 2 powi ?u \<le> of_int (2 ^ 53)" by simp
  then have "round_even (x / 2 powi ?u) \<le> 2 ^ 53" by (rule round_even_le)
  then have "(of_int (round_even (x / 2 powi ?u)) :: rat) \<le> of_int (2 ^ 53)"
    by (simp only: of_int_le_iff)
  then have "fl x \<le> of_int (2 ^ 53) * 2 powi ?u"
    unfolding fl_def by (intro mult_right_mono) simp_all
  also have "\<dots> = 2 powi (?u + 53)"
    by (simp add: power_int_add add.commute)
  finally show ?thesis .
qed

lemma fl_lower:
  assumes "0 < x" and "- 1022 \<le> expo x"
  shows "2 powi expo x \<le> fl x"
proof -
  have u: "ulp_exp x = expo x - 52" using assms(2) by (simp add: ulp_exp_def)
  have e: "(2::rat) powi expo x = 2 powi 52 * 2 powi ulp_exp x"
    using power_int_add [of "2::rat" 52 "expo x - 52"] by (simp add: u)
  have "2 powi expo x \<le> x" using expo_bounds(1) [of x] assms(1) by simp
  then have "2 powi 52 \<le> x / 2 powi ulp_exp x"
    by (simp add: e pos_le_divide_eq)
  then have "of_int (2 ^ 52) \<le> x / 2 powi ulp_exp x" by simp
  then have "2 ^ 52 \<le> round_even (x / 2 powi ulp_exp x)" by (rule round_even_ge)
  then have "(of_int (2 ^ 52) :: rat) \<le> of_int (round_even (x / 2 powi ulp_exp x))"
    by (simp only: of_int_le_iff)
  then have "of_int (2 ^ 52) * 2 powi ulp_exp x \<le> fl x"
    unfolding fl_def by (intro mult_right_mono) simp_all
  then show ?thesis by (simp add: e)
qed

lemma fl_mono:
  assumes "0 \<le> x" and "x \<le> y"
  shows "fl x \<le> fl y"
proof (cases "x = 0")
  case True
  then show ?thesis using assms fl_nonneg [of y] by (simp add: fl_0)
next
  case False
  then have x: "0 < x" and y: "0 < y" using assms by simp_all
  have "expo x \<le> expo y" using x assms(2) by (rule expo_mono)
  then have le: "ulp_exp x \<le> ulp_exp y" by (simp add: ulp_exp_def)
  show ?thesis
  proof (cases "ulp_exp x = ulp_exp y")
    case True
    have "x / 2 powi ulp_exp y \<le> y / 2 powi ulp_exp y"
      using assms(2) by (simp add: divide_right_mono)
    then have "round_even (x / 2 powi ulp_exp y) \<le> round_even (y / 2 powi ulp_exp y)"
      by (rule round_even_mono)
    then have "(of_int (round_even (x / 2 powi ulp_exp y)) :: rat) \<le>
        of_int (round_even (y / 2 powi ulp_exp y))"
      by (simp only: of_int_le_iff)
    then show ?thesis
      unfolding fl_def True by (intro mult_right_mono) simp_all
  next
    case False
    then have lt: "ulp_exp x < ulp_exp y" using le by simp
    then have n: "- 1022 \<le> expo y" and uy: "ulp_exp y = expo y - 52"
      using ulp_exp_ge(2) [of x] unfolding ulp_exp_def by linarith+
    have "fl x \<le> 2 powi (ulp_exp x + 53)" using x by (rule fl_upper)
    also have "\<dots> \<le> 2 powi expo y"
      using lt uy by (intro power_int_increasing) simp_all
    also have "\<dots> \<le> fl y" using y n by (rule fl_lower)
    finally show ?thesis .
  qed
qed

lemma fl_err: "\<bar>fl x - x\<bar> \<le> 2 powi ulp_exp x / 2"
proof -
  let ?U = "(2::rat) powi ulp_exp x"
  have U: "0 < ?U" by simp
  have "fl x - x = (of_int (round_even (x / ?U)) - x / ?U) * ?U"
    by (simp add: fl_def algebra_simps)
  then have "\<bar>fl x - x\<bar> = \<bar>of_int (round_even (x / ?U)) - x / ?U\<bar> * ?U"
    by (simp add: abs_mult)
  also have "\<dots> \<le> 1 / 2 * ?U"
    using round_even_err [of "x / ?U"] by (intro mult_right_mono) simp_all
  finally show ?thesis by simp
qed

lemma expo_normal:
  assumes "2 powi (- 1022) \<le> x"
  shows "- 1022 \<le> expo x"
proof -
  have "(0::rat) < 2 powi (- 1022)" by (rule zero_less_power_int) simp
  then have x: "0 < x" using assms by linarith
  have "(2::rat) powi (- 1022) \<le> x" by (rule assms)
  also have "\<dots> < 2 powi (expo x + 1)" using expo_bounds(2) [of x] x by simp
  finally have "- 1022 < expo x + 1" by (rule two_powi_less_exp)
  then show ?thesis by simp
qed

lemma fl_rel:
  assumes "2 powi (- 1022) \<le> x"
  shows "\<bar>fl x - x\<bar> \<le> x / 2 ^ 53"
proof -
  have "(0::rat) < 2 powi (- 1022)" by (rule zero_less_power_int) simp
  then have x: "0 < x" using assms by linarith
  have u: "ulp_exp x = expo x - 52"
    using expo_normal [OF assms] by (simp add: ulp_exp_def)
  have "(2::rat) powi ulp_exp x = 2 powi expo x / 2 powi 52"
    unfolding u by (rule power_int_diff) simp
  also have "\<dots> \<le> x / 2 powi 52"
    using expo_bounds(1) [of x] x by (intro divide_right_mono) simp_all
  finally have "2 powi ulp_exp x / 2 \<le> x / 2 powi 52 / 2" by simp
  then have "2 powi ulp_exp x / 2 \<le> x / 2 ^ 53" by simp
  then show ?thesis using fl_err [of x] by linarith
qed

lemma fl_twentieth: "fl (1 / 20) = 3602879701896397 / 72057594037927936"
  by code_simp

lemma fl_64: "fl 64 = 64"
  by code_simp

lemma expo_64_128:
  assumes "64 \<le> x" and "x < 128"
  shows "ulp_exp x = - 46"
proof -
  have "expo x = 6"
    using assms by (intro expo_unique) simp_all
  then show ?thesis by (simp add: ulp_exp_def)
qed

lemma fl_64_128:
  assumes "64 \<le> x" and "x < 128"
  shows "fl x = of_int (round_even (x * 2 ^ 46)) / 2 ^ 46"
proof -
  have e: "(2::rat) powi (- 46) = 1 / 2 ^ 46"
    using power_int_minus_divide [of "2::rat" 46] by simp
  show ?thesis
    unfolding fl_def expo_64_128 [OF assms] e by simp
qed

lemma double_gap:
  assumes "fl p = p" and "0 \<le> p" and "p < 99"
  shows "p \<le> 99 - 1 / 2 ^ 46"
proof (cases "p < 64")
  case True
  then show ?thesis by simp
next
  case False
  then have r: "64 \<le> p" "p < 128" using assms(3) by simp_all
  let ?K = "round_even (p * 2 ^ 46)"
  have p: "p = of_int ?K / 2 ^ 46"
    using fl_64_128 [OF r] assms(1) by simp
  then have "(of_int ?K :: rat) < 99 * 2 ^ 46"
    using assms(3) by (simp add: pos_divide_less_eq)
  then have "(of_int ?K :: rat) < of_int (99 * 2 ^ 46)" by simp
  then have "?K < 99 * 2 ^ 46" by (simp only: of_int_less_iff)
  then have "?K \<le> 99 * 2 ^ 46 - 1" by simp
  then have "(of_int ?K :: rat) \<le> of_int (99 * 2 ^ 46 - 1)" by (simp only: of_int_le_iff)
  then have "of_int ?K / 2 ^ 46 \<le> (of_int (99 * 2 ^ 46 - 1) :: rat) / 2 ^ 46"
    by (intro divide_right_mono) simp_all
  then show ?thesis using p by simp
qed

lemma fl_below_99:
  assumes "0 \<le> s" and "s < 99 - 1 / 2 ^ 47"
  shows "fl s \<le> 99 - 1 / 2 ^ 46"
proof (cases "s < 64")
  case True
  then have "fl s \<le> fl 64" using assms(1) by (intro fl_mono) simp_all
  then show ?thesis by (simp add: fl_64)
next
  case False
  then have r: "64 \<le> s" "s < 128" using assms(2) by simp_all
  have "s * 2 ^ 46 < of_int (99 * 2 ^ 46 - 1) + 1 / 2"
    using assms(2) by simp
  then have "round_even (s * 2 ^ 46) \<le> 99 * 2 ^ 46 - 1" by (rule round_even_less_half)
  then have "(of_int (round_even (s * 2 ^ 46)) :: rat) \<le> of_int (99 * 2 ^ 46 - 1)"
    by (simp only: of_int_le_iff)
  then have "of_int (round_even (s * 2 ^ 46)) / 2 ^ 46 \<le> (of_int (99 * 2 ^ 46 - 1) :: rat) / 2 ^ 46"
    by (intro divide_right_mono) simp_all
  then show ?thesis using fl_64_128 [OF r] by simp
qed

lemma normal_bound: "(2::rat) powi (- 1022) \<le> 1 / 2 ^ 60"
proof -
  have "(2::rat) powi (- 1022) \<le> 2 powi (- 60)"
    by (intro power_int_increasing) simp_all
  moreover have "(2::rat) powi (- 60) = 1 / 2 ^ 60"
    using power_int_minus_divide [of "2::rat" 60] by simp
  ultimately show ?thesis by simp
qed

lemma fl_rel_bounds:
  assumes "2 powi (- 1022) \<le> x"
  shows "x * (1 - 1 / 2 ^ 53) \<le> fl x" and "fl x \<le> x * (1 + 1 / 2 ^ 53)"
proof -
  have "\<bar>fl x - x\<bar> \<le> x / 2 ^ 53" using assms by (rule fl_rel)
  then have "fl x - x \<le> x / 2 ^ 53" and "x - fl x \<le> x / 2 ^ 53"
    by linarith+
  then show "x * (1 - 1 / 2 ^ 53) \<le> fl x" and "fl x \<le> x * (1 + 1 / 2 ^ 53)"
    by (simp_all add: algebra_simps)
qed

lemma increment_bounds:
  assumes "1 / 2 ^ 46 \<le> d"
  shows "d / 25 \<le> fl (fl d * fl (1 / 20))" and "fl (fl d * fl (1 / 20)) \<le> d * (3 / 50)"
proof -
  have "2 powi (- 1022) \<le> d" using assms normal_bound by simp
  then have g: "d * (1 - 1 / 2 ^ 53) \<le> fl d" "fl d \<le> d * (1 + 1 / 2 ^ 53)"
    by (rule fl_rel_bounds)+
  have g1: "d * (99 / 100) \<le> fl d" and g2: "fl d \<le> d * (101 / 100)"
    using g assms by simp_all
  have c: "fl d * fl (1 / 20) = fl d * (3602879701896397 / 72057594037927936)"
    by (simp add: fl_twentieth)
  have "1 / 2 ^ 60 \<le> fl d * fl (1 / 20)"
    unfolding c using g1 assms by simp
  then have "2 powi (- 1022) \<le> fl d * fl (1 / 20)" using normal_bound by simp
  then have i: "fl d * fl (1 / 20) * (1 - 1 / 2 ^ 53) \<le> fl (fl d * fl (1 / 20))"
    "fl (fl d * fl (1 / 20)) \<le> fl d * fl (1 / 20) * (1 + 1 / 2 ^ 53)"
    by (rule fl_rel_bounds)+
  have "fl d * (49 / 1000) \<le> fl d * fl (1 / 20) * (1 - 1 / 2 ^ 53)"
    unfolding c using g1 assms by simp
  then have "fl d * (49 / 1000) \<le> fl (fl d * fl (1 / 20))" using i(1) by linarith
  then show "d / 25 \<le> fl (fl d * fl (1 / 20))" using g1 assms by simp
  have "fl d * fl (1 / 20) * (1 + 1 / 2 ^ 53) \<le> fl d * (51 / 1000)"
    unfolding c using g1 assms by simp
  then have "fl (fl d * fl (1 / 20)) \<le> fl d * (51 / 1000)" using i(2) by linarith
  then show "fl (fl d * fl (1 / 20)) \<le> d * (3 / 50)" using g2 assms by simp
qed

lemma detailedNotesStage_snaps:
  "snapsOnResolution gen (snd (detailedNotesStage gen t g))"
  by (cases "gen (detailedNotesRequest t)")
    (simp_all add: detailedNotesStage_resolved detailedNotesStage_rejected)

lemma studyGuideStage_snaps:
  "snapsOnResolution gen (snd (studyGuideStage gen t))"
proof (cases "gen (studyGuideRequest t)")
  case (Rejected err)
  then show ?thesis by (simp add: studyGuideStage_rejected)
next
  case (Resolved rt)
  show ?thesis
  proof (cases "parseStudyGuide rt")
    case None
    then show ?thesis using Resolved by (simp add: studyGuideStage_malformed)
  next
    case (Some g)
    then show ?thesis
      using Resolved detailedNotesStage_snaps [of gen t g]
      by (simp add: studyGuideStage_parsed)
  qed
qed

lemma runStages_snaps: "snapsOnResolution gen (snd (runStages gen a))"
proof (cases "gen (transcriptionRequest a)")
  case (Rejected err)
  then show ?thesis by (simp add: runStages_rejected1)
next
  case (Resolved tx)
  show ?thesis
  proof (cases "\<forall>s. tx = Some s \<longrightarrow> (\<forall>c \<in> set s. isWhiteSpace c)")
    case True
    then show ?thesis
      using runStages_empty_transcript [of gen a tx] Resolved by simp
  next
    case False
    then obtain t where tx: "tx = Some t" and ne: "trim t \<noteq> []"
      by (auto simp: trim_empty_iff)
    then show ?thesis
      using Resolved runStages_transcribed [of gen a t] studyGuideStage_snaps [of gen t]
      by simp
  qed
qed

lemma handleGenerate_snaps: "snapsOnResolution gen (snd (handleGenerate e gen st))"
proof (cases "\<not> missing (API_KEY e) \<and> audioData st \<noteq> None \<and> mediaFile st \<noteq> None")
  case True
  then obtain a f where "audioData st = Some a" "mediaFile st = Some f" by auto
  then show ?thesis
    using True handleGenerate_trace [of e st a f gen] runStages_snaps [of gen a] by simp
next
  case False
  then have "snd (handleGenerate e gen st) = []"
    by (auto simp: handleGenerate_def split: option.splits)
  then show ?thesis by simp
qed

text \<open>
  C7, as the code has it. For every double \<open>p\<close> with \<open>0 \<le> p < 99\<close> one tick gives a
  value \<open>p'\<close> with \<open>p \<le> p' < 99\<close>, and \<open>p < p'\<close> as long as \<open>p \<le> 99 - 1 / 2 ^ 40\<close>;
  a value of 99 or more is mapped to 99. So a tick never decreases the progress and never
  takes it beyond 99, and a run sets the progress to 100 only after a remote call has
  resolved and the timer has been stopped.
\<close>

theorem progress_tick_bounds:
  assumes "isDouble p" and "0 \<le> p"
  shows "(p < 99 \<longrightarrow> p \<le> progressTick p \<and> progressTick p < 99) \<and>
         (p \<le> 99 - 1 / 2 ^ 40 \<longrightarrow> p < progressTick p) \<and>
         (99 \<le> p \<longrightarrow> progressTick p = 99) \<and>
         progressTick p \<le> 99 \<and>
         snapsOnResolution gen (snd (handleGenerate e gen st))"
proof -
  have fp: "fl p = p" using assms(1) by (simp add: isDouble_def)
  have top: "progressTick p = 99" if "99 \<le> p"
    using that by (simp add: progressTick_def)
  have near: "p \<le> progressTick p \<and> progressTick p < 99" if lt: "p < 99"
  proof -
    let ?i = "fl (fl (99 - p) * fl (1 / 20))"
    have d: "1 / 2 ^ 46 \<le> 99 - p" using double_gap [OF fp assms(2) lt] by simp
    have i: "(99 - p) / 25 \<le> ?i" "?i \<le> (99 - p) * (3 / 50)"
      using d by (rule increment_bounds)+
    have ipos: "0 \<le> ?i" using i(1) lt by simp
    have tick: "progressTick p = fl (p + ?i)" using lt by (simp add: progressTick_def)
    have "fl p \<le> fl (p + ?i)" using assms(2) ipos by (intro fl_mono) simp_all
    then have lo: "p \<le> progressTick p" using fp by (simp add: tick)
    have "p + ?i < 99 - 1 / 2 ^ 47" using i(2) d by simp
    then have "fl (p + ?i) \<le> 99 - 1 / 2 ^ 46"
      using assms(2) ipos by (intro fl_below_99) simp_all
    then have "progressTick p < 99" by (simp add: tick)
    then show ?thesis using lo by simp
  qed
  have strict: "p < progressTick p" if far: "p \<le> 99 - 1 / 2 ^ 40"
  proof -
    have lt: "p < 99" using far by simp
    let ?i = "fl (fl (99 - p) * fl (1 / 20))"
    have d: "1 / 2 ^ 46 \<le> 99 - p" using far by simp
    have i: "(99 - p) / 25 \<le> ?i" using d by (rule increment_bounds)
    have ilb: "1 / 2 ^ 45 \<le> ?i" using i far by simp
    have "2 powi (- 1022) \<le> p + ?i" using ilb assms(2) normal_bound by simp
    then have s: "(p + ?i) * (1 - 1 / 2 ^ 53) \<le> fl (p + ?i)" by (rule fl_rel_bounds)
    have tick: "progressTick p = fl (p + ?i)" using lt by (simp add: progressTick_def)
    have "p < (p + ?i) * (1 - 1 / 2 ^ 53)" using ilb lt by simp
    then have "p < fl (p + ?i)" using s by linarith
    then show ?thesis by (simp add: tick)
  qed
  have le: "progressTick p \<le> 99"
    using top near by (cases "p < 99") auto
  show ?thesis using top near strict le handleGenerate_snaps by blast
qed

lemma fl_100: "fl 100 = 100"
  by code_simp

theorem progress_tick_bounds_witness:
  "isDouble 0 \<and> (0::rat) < progressTick 0 \<and> progressTick 0 < 99 \<and>
   isDouble 100 \<and> progressTick 100 = 99"
proof -
  have d0: "isDouble 0" by (simp add: isDouble_def fl_0)
  have d100: "isDouble 100" by (simp add: isDouble_def fl_100)
  show ?thesis
    using progress_tick_bounds [OF d0] progress_tick_bounds [OF d100] d0 d100 by simp
qed

lemma tick_stalls: "progressTick (99 - 1 / 2 ^ 46) = 99 - 1 / 2 ^ 46"
  by code_simp

lemma pred_99_double: "fl (99 - 1 / 2 ^ 46) = 99 - 1 / 2 ^ 46"
  by code_simp

text \<open>
  C7 as stated fails at the double just below 99: there the increment is a twentieth of
  the spacing of the doubles, the sum rounds back to the value itself, and the tick does
  not increase the progress.
\<close>

theorem progress_tick_counterexample:
  "isDouble (99 - 1 / 2 ^ 46) \<and> (0::rat) \<le> 99 - 1 / 2 ^ 46 \<and> (99 - 1 / 2 ^ 46 :: rat) < 99 \<and>
   \<not> (99 - 1 / 2 ^ 46 < progressTick (99 - 1 / 2 ^ 46))"
  unfolding isDouble_def tick_stalls pred_99_double by simp

end
